theory Spec2Isabelle
  imports Complex_Main
begin

section \<open>Python values\<close>

text \<open>
  The configuration file and the upstream reply are JSON documents, which Python's
  \<^verbatim>\<open>json\<close> module turns into dynamically typed values: \<^verbatim>\<open>None\<close>, \<^verbatim>\<open>bool\<close>,
  \<^verbatim>\<open>int\<close>, \<^verbatim>\<open>float\<close>, \<^verbatim>\<open>str\<close>, \<^verbatim>\<open>list\<close> and \<^verbatim>\<open>dict\<close> with string keys.
  The code stores such values into the settings objects without any type check, so
  the settings fields hold values of this type. A \<^verbatim>\<open>str\<close> is the byte string of
  its UTF-8 encoding, an unpaired surrogate written in its three-byte form (as the
  \<^verbatim>\<open>surrogatepass\<close> error handler writes it), so that every \<^verbatim>\<open>str\<close> has one;
  a \<^verbatim>\<open>dict\<close> is an association list in insertion order whose keys are distinct.
  A \<^verbatim>\<open>float\<close> is a finite real number, an infinity or NaN; only its comparisons
  with integer constants are used.
\<close>

datatype pyfloat = Finite real | PosInf | NegInf | NaN

datatype pyval =
    PNone
  | PBool bool
  | PInt int
  | PFloat pyfloat
  | PStr string
  | PList "pyval list"
  | PDict "(string \<times> pyval) list"

text \<open>The exceptions the modelled code raises or lets through, by class.\<close>

datatype py_exception =
    TypeError
  | AttributeError
  | MissingApiKeyValueError
  | MissingChoicesValueError
  | UnicodeDecodeError
  | UnicodeEncodeError
  | ValueError
  | RecursionError
  | OSError
  | HTTPStatusError int string
  | TimeoutError
  | ConnectionError
  | OtherException string

text \<open>Truth value testing (\<^verbatim>\<open>if x\<close>, \<^verbatim>\<open>not x\<close>, \<^verbatim>\<open>x or y\<close>).\<close>

fun truthy :: "pyval \<Rightarrow> bool" where
  "truthy PNone = False"
| "truthy (PBool b) = b"
| "truthy (PInt i) = (i \<noteq> 0)"
| "truthy (PFloat (Finite r)) = (r \<noteq> 0)"
| "truthy (PFloat f) = True"
| "truthy (PStr s) = (s \<noteq> [])"
| "truthy (PList xs) = (xs \<noteq> [])"
| "truthy (PDict kvs) = (kvs \<noteq> [])"

text \<open>\<^verbatim>\<open>s.startswith(p)\<close> and the substring test \<^verbatim>\<open>p in s\<close> on strings.\<close>

fun startswith :: "string \<Rightarrow> string \<Rightarrow> bool" where
  "startswith s [] = True"
| "startswith [] (p # ps) = False"
| "startswith (c # cs) (p # ps) = (c = p \<and> startswith cs ps)"

fun str_contains :: "string \<Rightarrow> string \<Rightarrow> bool" where
  "str_contains [] p = (p = [])"
| "str_contains (c # cs) p = (startswith (c # cs) p \<or> str_contains cs p)"

text \<open>
  \<^verbatim>\<open>key in x\<close> for a string \<^verbatim>\<open>key\<close>: key membership for a dict, element membership
  for a list, the substring test for a string, and a \<^verbatim>\<open>TypeError\<close> for a value that
  is not iterable.
\<close>

fun py_contains :: "string \<Rightarrow> pyval \<Rightarrow> py_exception + bool" where
  "py_contains key (PDict kvs) = Inr (key \<in> fst ` set kvs)"
| "py_contains key (PList xs) = Inr (PStr key \<in> set xs)"
| "py_contains key (PStr s) = Inr (str_contains s key)"
| "py_contains key v = Inl TypeError"

text \<open>
  \<^verbatim>\<open>x[key]\<close> for a string \<^verbatim>\<open>key\<close>, used only after \<^verbatim>\<open>key in x\<close> was true: the
  dict's value; a list and a string take integer indices only (\<^verbatim>\<open>TypeError\<close>).
\<close>

fun py_getitem :: "pyval \<Rightarrow> string \<Rightarrow> py_exception + pyval" where
  "py_getitem (PDict kvs) key =
     (case map_of kvs key of Some v \<Rightarrow> Inr v | None \<Rightarrow> Inl (OtherException ''KeyError''))"
| "py_getitem v key = Inl TypeError"

text \<open>\<^verbatim>\<open>x.items()\<close>: only a dict has the method.\<close>

fun py_items :: "pyval \<Rightarrow> py_exception + (string \<times> pyval) list" where
  "py_items (PDict kvs) = Inr kvs"
| "py_items v = Inl AttributeError"

section \<open>Settings (config.py)\<close>

text \<open>
  \<^verbatim>\<open>ProxySettings\<close>: no code path assigns its fields from a file, so they keep the
  declared type \<^verbatim>\<open>str\<close>.
\<close>

record ProxySettings =
  http_proxy :: string
  https_proxy :: string
  all_proxy :: string
  no_proxy :: string

definition default_proxy :: ProxySettings where
  "default_proxy = \<lparr>http_proxy = '''', https_proxy = '''', all_proxy = '''', no_proxy = ''''\<rparr>"

text \<open>
  \<^verbatim>\<open>get_proxy_config\<close> builds a dict with the keys \<^verbatim>\<open>"http://"\<close> and \<^verbatim>\<open>"https://"\<close>,
  each filled from the scheme's own field, else from \<^verbatim>\<open>all_proxy\<close>, else left out.
\<close>

definition get_proxy_config :: "ProxySettings \<Rightarrow> (string \<times> string) list" where
  "get_proxy_config self =
     (let proxies = [];
          proxies = (if http_proxy self \<noteq> [] then proxies @ [(''http://'', http_proxy self)]
                     else if all_proxy self \<noteq> [] then proxies @ [(''http://'', all_proxy self)]
                     else proxies);
          proxies = (if https_proxy self \<noteq> [] then proxies @ [(''https://'', https_proxy self)]
                     else if all_proxy self \<noteq> [] then proxies @ [(''https://'', all_proxy self)]
                     else proxies)
      in proxies)"

definition get_httpx_proxy :: "ProxySettings \<Rightarrow> string option" where
  "get_httpx_proxy self =
     (let proxies = get_proxy_config self in
      if proxies = [] then None
      else if ''https://'' \<in> fst ` set proxies then map_of proxies ''https://''
      else if ''http://'' \<in> fst ` set proxies then map_of proxies ''http://''
      else None)"

text \<open>
  \<^verbatim>\<open>PerplexitySettings\<close> and \<^verbatim>\<open>ServerSettings\<close> are assigned through \<^verbatim>\<open>setattr\<close>
  with whatever value the file holds, so their fields are dynamically typed. Besides
  its fields an instance may come to hold an attribute \<^verbatim>\<open>__dataclass_fields__\<close> of
  its own, which hides the class's for \<^verbatim>\<open>dataclasses.asdict\<close>; the last component
  of each record is that attribute, where one was set.
\<close>

record PerplexitySettings =
  api_key :: pyval
  api_url :: pyval
  model :: pyval
  model_prefix :: pyval
  system_message :: pyval
  timeout :: pyval
  max_retries :: pyval
  retry_delay :: pyval
  perplexity_own_fields :: "pyval option"

definition default_perplexity :: PerplexitySettings where
  "default_perplexity =
     \<lparr>api_key = PStr '''',
      api_url = PStr ''https://api.perplexity.ai/chat/completions'',
      model = PStr ''sonar'',
      model_prefix = PStr '''',
      system_message = PStr ''Be precise and concise.'',
      timeout = PFloat (Finite 30),
      max_retries = PInt 3,
      retry_delay = PFloat (Finite 1),
      perplexity_own_fields = None\<rparr>"

record ServerSettings =
  host :: pyval
  port :: pyval
  path :: pyval
  log_level :: pyval
  enable_cors :: pyval
  max_request_size :: pyval
  server_own_fields :: "pyval option"

definition default_server :: ServerSettings where
  "default_server =
     \<lparr>host = PStr ''127.0.0.1'',
      port = PInt 8000,
      path = PStr ''/mcp'',
      log_level = PStr ''info'',
      enable_cors = PBool True,
      max_request_size = PInt (1024 * 1024),
      server_own_fields = None\<rparr>"

record AppConfig =
  perplexity :: PerplexitySettings
  server :: ServerSettings
  proxy :: ProxySettings
  debug :: pyval
  config_version :: string

definition default_config :: AppConfig where
  "default_config =
     \<lparr>perplexity = default_perplexity, server = default_server, proxy = default_proxy,
      debug = PBool False, config_version = ''1.0''\<rparr>"

subsection \<open>Attribute access by name\<close>

text \<open>
  \<^verbatim>\<open>hasattr(obj, key)\<close> holds for the dataclass fields and for the attributes every
  instance has (\<^verbatim>\<open>__class__\<close>, \<^verbatim>\<open>__dict__\<close>, \<^verbatim>\<open>__doc__\<close>, ...). \<^verbatim>\<open>setattr\<close> on a field
  stores the value. On \<^verbatim>\<open>__class__\<close> it raises \<^verbatim>\<open>TypeError\<close> (no JSON value is a
  class), on \<^verbatim>\<open>__weakref__\<close> \<^verbatim>\<open>AttributeError\<close> (not writable); on \<^verbatim>\<open>__dict__\<close> it
  replaces the instance's attributes by the given dict (\<^verbatim>\<open>TypeError\<close> for any other
  value), after which a field missing from that dict reads as the class attribute, the
  dataclass default. On \<^verbatim>\<open>__dataclass_fields__\<close> it gives the instance an attribute of
  that name. Any other name is either no attribute (skipped) or becomes an instance
  attribute that hides nothing the code reads: the record is unchanged.
\<close>

definition attr_or :: "(string \<times> pyval) list \<Rightarrow> string \<Rightarrow> pyval \<Rightarrow> pyval" where
  "attr_or d key dflt = (case map_of d key of Some v \<Rightarrow> v | None \<Rightarrow> dflt)"

definition perplexity_fields :: "string list" where
  "perplexity_fields =
     [''api_key'', ''api_url'', ''model'', ''model_prefix'', ''system_message'', ''timeout'',
      ''max_retries'', ''retry_delay'']"


definition perplexity_from_dict :: "(string \<times> pyval) list \<Rightarrow> PerplexitySettings" where
  "perplexity_from_dict d =
     \<lparr>api_key = attr_or d ''api_key'' (api_key default_perplexity),
      api_url = attr_or d ''api_url'' (api_url default_perplexity),
      model = attr_or d ''model'' (model default_perplexity),
      model_prefix = attr_or d ''model_prefix'' (model_prefix default_perplexity),
      system_message = attr_or d ''system_message'' (system_message default_perplexity),
      timeout = attr_or d ''timeout'' (timeout default_perplexity),
      max_retries = attr_or d ''max_retries'' (max_retries default_perplexity),
      retry_delay = attr_or d ''retry_delay'' (retry_delay default_perplexity),
      perplexity_own_fields = map_of d ''__dataclass_fields__''\<rparr>"

definition setattr_perplexity ::
  "PerplexitySettings \<Rightarrow> string \<Rightarrow> pyval \<Rightarrow> py_exception + PerplexitySettings" where
  "setattr_perplexity s key v =
     (if key = ''api_key'' then Inr (s\<lparr>api_key := v\<rparr>)
      else if key = ''api_url'' then Inr (s\<lparr>api_url := v\<rparr>)
      else if key = ''model'' then Inr (s\<lparr>model := v\<rparr>)
      else if key = ''model_prefix'' then Inr (s\<lparr>model_prefix := v\<rparr>)
      else if key = ''system_message'' then Inr (s\<lparr>system_message := v\<rparr>)
      else if key = ''timeout'' then Inr (s\<lparr>timeout := v\<rparr>)
      else if key = ''max_retries'' then Inr (s\<lparr>max_retries := v\<rparr>)
      else if key = ''retry_delay'' then Inr (s\<lparr>retry_delay := v\<rparr>)
      else if key = ''__class__'' then Inl TypeError
      else if key = ''__weakref__'' then Inl AttributeError
      else if key = ''__dict__'' then
        (case v of PDict d \<Rightarrow> Inr (perplexity_from_dict d) | _ \<Rightarrow> Inl TypeError)
      else if key = ''__dataclass_fields__'' then Inr (s\<lparr>perplexity_own_fields := Some v\<rparr>)
      else Inr s)"

definition server_fields :: "string list" where
  "server_fields =
     [''host'', ''port'', ''path'', ''log_level'', ''enable_cors'', ''max_request_size'']"


definition server_from_dict :: "(string \<times> pyval) list \<Rightarrow> ServerSettings" where
  "server_from_dict d =
     \<lparr>host = attr_or d ''host'' (host default_server),
      port = attr_or d ''port'' (port default_server),
      path = attr_or d ''path'' (path default_server),
      log_level = attr_or d ''log_level'' (log_level default_server),
      enable_cors = attr_or d ''enable_cors'' (enable_cors default_server),
      max_request_size = attr_or d ''max_request_size'' (max_request_size default_server),
      server_own_fields = map_of d ''__dataclass_fields__''\<rparr>"

definition setattr_server ::
  "ServerSettings \<Rightarrow> string \<Rightarrow> pyval \<Rightarrow> py_exception + ServerSettings" where
  "setattr_server s key v =
     (if key = ''host'' then Inr (s\<lparr>host := v\<rparr>)
      else if key = ''port'' then Inr (s\<lparr>port := v\<rparr>)
      else if key = ''path'' then Inr (s\<lparr>path := v\<rparr>)
      else if key = ''log_level'' then Inr (s\<lparr>log_level := v\<rparr>)
      else if key = ''enable_cors'' then Inr (s\<lparr>enable_cors := v\<rparr>)
      else if key = ''max_request_size'' then Inr (s\<lparr>max_request_size := v\<rparr>)
      else if key = ''__class__'' then Inl TypeError
      else if key = ''__weakref__'' then Inl AttributeError
      else if key = ''__dict__'' then
        (case v of PDict d \<Rightarrow> Inr (server_from_dict d) | _ \<Rightarrow> Inl TypeError)
      else if key = ''__dataclass_fields__'' then Inr (s\<lparr>server_own_fields := Some v\<rparr>)
      else Inr s)"

text \<open>
  The loop \<^verbatim>\<open>for key, value in items: if hasattr(obj, key): setattr(obj, key, value)\<close>,
  for any object with its \<^verbatim>\<open>setattr\<close>; an exception ends it.
\<close>

fun apply_items ::
  "('s \<Rightarrow> string \<Rightarrow> pyval \<Rightarrow> py_exception + 's) \<Rightarrow> 's \<Rightarrow> (string \<times> pyval) list
     \<Rightarrow> py_exception + 's" where
  "apply_items set_attr s [] = Inr s"
| "apply_items set_attr s ((key, v) # rest) =
     (case set_attr s key v of
        Inl e \<Rightarrow> Inl e
      | Inr s' \<Rightarrow> apply_items set_attr s' rest)"

text \<open>Sequencing of steps that may raise.\<close>

definition and_then :: "py_exception + 'a \<Rightarrow> ('a \<Rightarrow> py_exception + 'b) \<Rightarrow> py_exception + 'b" where
  "and_then m f = (case m of Inl e \<Rightarrow> Inl e | Inr x \<Rightarrow> f x)"

section \<open>ConfigManager (config.py)\<close>

text \<open>
  What \<^verbatim>\<open>ConfigManager\<close> prints, by kind of message. \<^verbatim>\<open>print\<close> is taken to return
  normally.
\<close>

datatype validation_issue =
    ApiKeyNotSet
  | TimeoutNotPositive
  | MaxRetriesNegative
  | PortOutOfRange
  | MaxRequestSizeNotPositive

datatype message =
    FileLoadWarning
  | ValidationWarning "validation_issue list"
  | ConfigSaved
  | ConfigSaveFailed

subsection \<open>Reading the file\<close>

text \<open>
  What \<^verbatim>\<open>_load_from_file\<close> meets at \<^verbatim>\<open>self.config_file\<close>:
  \<^item> \<^verbatim>\<open>Missing\<close>: \<^verbatim>\<open>exists()\<close> is false;
  \<^item> \<^verbatim>\<open>Inaccessible\<close>: \<^verbatim>\<open>exists()\<close> itself raises an \<^verbatim>\<open>OSError\<close>, outside the
    \<^verbatim>\<open>try\<close>;
  \<^item> \<^verbatim>\<open>Unreadable\<close>: \<^verbatim>\<open>open\<close> or \<^verbatim>\<open>read\<close> fails with an \<^verbatim>\<open>IOError\<close>, which is caught;
  \<^item> \<^verbatim>\<open>Undecodable\<close>: the bytes are not UTF-8 and \<^verbatim>\<open>read\<close> raises
    \<^verbatim>\<open>UnicodeDecodeError\<close>, which is neither of the two exceptions caught;
  \<^item> \<^verbatim>\<open>NotJson\<close>: \<^verbatim>\<open>json.load\<close> rejects the text with \<^verbatim>\<open>JSONDecodeError\<close> (the empty
    file is one), which is caught;
  \<^item> \<^verbatim>\<open>LoadRaises e\<close>: \<^verbatim>\<open>json.load\<close> raises another exception \<^verbatim>\<open>e\<close>: a plain
    \<^verbatim>\<open>ValueError\<close> for an integer literal longer than the interpreter's digit limit,
    a \<^verbatim>\<open>RecursionError\<close> for nesting beyond its recursion limit. It is caught where
    it is an \<^verbatim>\<open>IOError\<close>, that is an \<^verbatim>\<open>OSError\<close> or one of its subclasses;
  \<^item> \<^verbatim>\<open>Json v\<close>: \<^verbatim>\<open>json.load\<close> returns the value \<^verbatim>\<open>v\<close>.
\<close>

datatype config_file =
    Missing
  | Inaccessible
  | Unreadable
  | Undecodable
  | NotJson
  | LoadRaises py_exception
  | Json pyval

fun os_error :: "py_exception \<Rightarrow> bool" where
  "os_error OSError = True"
| "os_error TimeoutError = True"
| "os_error ConnectionError = True"
| "os_error e = False"

fun load_from_file :: "config_file \<Rightarrow> message list \<times> (py_exception + pyval)" where
  "load_from_file Missing = ([], Inr (PDict []))"
| "load_from_file Unreadable = ([FileLoadWarning], Inr (PDict []))"
| "load_from_file NotJson = ([FileLoadWarning], Inr (PDict []))"
| "load_from_file Undecodable = ([], Inl UnicodeDecodeError)"
| "load_from_file Inaccessible = ([], Inl OSError)"
| "load_from_file (LoadRaises e) =
     (if os_error e then ([FileLoadWarning], Inr (PDict [])) else ([], Inl e))"
| "load_from_file (Json v) = ([], Inr v)"

subsection \<open>Reading the environment\<close>

text \<open>
  The process environment maps names to strings; \<^verbatim>\<open>os.getenv(name)\<close> is \<^verbatim>\<open>env name\<close>
  and \<^verbatim>\<open>os.getenv(name, "")\<close> is \<^verbatim>\<open>getenv_or env name ''''\<close>.
\<close>

type_synonym environ = "string \<Rightarrow> string option"

definition getenv_or :: "environ \<Rightarrow> string \<Rightarrow> string \<Rightarrow> string" where
  "getenv_or env name dflt = (case env name of None \<Rightarrow> dflt | Some s \<Rightarrow> s)"

text \<open>
  \<^verbatim>\<open>str.lower()\<close> on the ASCII letters. No character outside ASCII lowers to a letter
  of the words the results are compared with, so the comparisons agree with Python's.
\<close>

definition lower_char :: "char \<Rightarrow> char" where
  "lower_char c =
     (let n = (of_char c :: nat) in if 65 \<le> n \<and> n \<le> 90 then char_of (n + 32) else c)"

definition str_lower :: "string \<Rightarrow> string" where
  "str_lower s = map lower_char s"

text \<open>
  The built-ins \<^verbatim>\<open>int(s)\<close> and \<^verbatim>\<open>float(s)\<close> are parameters \<^verbatim>\<open>py_int\<close> and
  \<^verbatim>\<open>py_float\<close>, with \<^verbatim>\<open>None\<close> where the built-in raises \<^verbatim>\<open>ValueError\<close>. The three
  static methods return \<^verbatim>\<open>None\<close> or the parsed value.
\<close>

definition parse_int :: "(string \<Rightarrow> int option) \<Rightarrow> string option \<Rightarrow> pyval" where
  "parse_int py_int v =
     (case v of
        None \<Rightarrow> PNone
      | Some s \<Rightarrow> if s = [] then PNone
                  else (case py_int s of Some i \<Rightarrow> PInt i | None \<Rightarrow> PNone))"

definition parse_float :: "(string \<Rightarrow> pyfloat option) \<Rightarrow> string option \<Rightarrow> pyval" where
  "parse_float py_float v =
     (case v of
        None \<Rightarrow> PNone
      | Some s \<Rightarrow> if s = [] then PNone
                  else (case py_float s of Some f \<Rightarrow> PFloat f | None \<Rightarrow> PNone))"

definition parse_bool :: "string option \<Rightarrow> pyval" where
  "parse_bool v =
     (case v of
        None \<Rightarrow> PNone
      | Some s \<Rightarrow> if s = [] then PNone
                  else PBool (str_lower s \<in> {''true'', ''1'', ''yes'', ''on''}))"

text \<open>
  \<^verbatim>\<open>os.getenv(upper) or os.getenv(lower, "")\<close>: the upper-case variable when it is set
  and not empty, else the lower-case one, else the empty string.
\<close>

definition getenv_either :: "environ \<Rightarrow> string \<Rightarrow> string \<Rightarrow> string" where
  "getenv_either env upper lower =
     (case env upper of
        Some s \<Rightarrow> if s \<noteq> [] then s else getenv_or env lower ''''
      | None \<Rightarrow> getenv_or env lower '''')"

definition perplexity_env ::
  "(string \<Rightarrow> int option) \<Rightarrow> (string \<Rightarrow> pyfloat option) \<Rightarrow> environ \<Rightarrow> (string \<times> pyval) list" where
  "perplexity_env py_int py_float env =
     [(''api_key'', PStr (getenv_or env ''PERPLEXITY_API_KEY'' '''')),
      (''api_url'', PStr (getenv_or env ''PERPLEXITY_API_URL'' '''')),
      (''model'', PStr (getenv_or env ''PERPLEXITY_MODEL'' '''')),
      (''model_prefix'', PStr (getenv_or env ''PERPLEXITY_MODEL_PREFIX'' '''')),
      (''system_message'', PStr (getenv_or env ''PERPLEXITY_SYSTEM_MESSAGE'' '''')),
      (''timeout'', parse_float py_float (env ''PERPLEXITY_TIMEOUT'')),
      (''max_retries'', parse_int py_int (env ''PERPLEXITY_MAX_RETRIES'')),
      (''retry_delay'', parse_float py_float (env ''PERPLEXITY_RETRY_DELAY''))]"

definition server_env :: "(string \<Rightarrow> int option) \<Rightarrow> environ \<Rightarrow> (string \<times> pyval) list" where
  "server_env py_int env =
     [(''host'', PStr (getenv_or env ''MCP_HOST'' '''')),
      (''port'', parse_int py_int (env ''MCP_PORT'')),
      (''path'', PStr (getenv_or env ''MCP_PATH'' '''')),
      (''log_level'', PStr (getenv_or env ''LOG_LEVEL'' '''')),
      (''enable_cors'', parse_bool (env ''ENABLE_CORS'')),
      (''max_request_size'', parse_int py_int (env ''MAX_REQUEST_SIZE''))]"

definition proxy_env :: "environ \<Rightarrow> (string \<times> pyval) list" where
  "proxy_env env =
     [(''http_proxy'', PStr (getenv_either env ''HTTP_PROXY'' ''http_proxy'')),
      (''https_proxy'', PStr (getenv_either env ''HTTPS_PROXY'' ''https_proxy'')),
      (''all_proxy'', PStr (getenv_either env ''ALL_PROXY'' ''all_proxy'')),
      (''no_proxy'', PStr (getenv_either env ''NO_PROXY'' ''no_proxy''))]"

text \<open>The two filters: \<^verbatim>\<open>value is not None and value != ""\<close>, and \<^verbatim>\<open>if value\<close>.\<close>

definition not_none_nor_empty :: "(string \<times> pyval) list \<Rightarrow> (string \<times> pyval) list" where
  "not_none_nor_empty kvs = filter (\<lambda>(key, v). v \<noteq> PNone \<and> v \<noteq> PStr []) kvs"

definition only_truthy :: "(string \<times> pyval) list \<Rightarrow> (string \<times> pyval) list" where
  "only_truthy kvs = filter (\<lambda>(key, v). truthy v) kvs"

definition load_from_env ::
  "(string \<Rightarrow> int option) \<Rightarrow> (string \<Rightarrow> pyfloat option) \<Rightarrow> environ \<Rightarrow> pyval" where
  "load_from_env py_int py_float env =
     PDict
       [(''perplexity'', PDict (not_none_nor_empty (perplexity_env py_int py_float env))),
        (''server'', PDict (not_none_nor_empty (server_env py_int env))),
        (''proxy'', PDict (only_truthy (proxy_env env))),
        (''debug'',
           PBool (str_lower (getenv_or env ''DEBUG'' '''') \<in> {''true'', ''1'', ''yes''}))]"

subsection \<open>Merging\<close>

text \<open>
  \<^verbatim>\<open>_merge_configs\<close> runs the same three steps on the file's value and then on the
  environment's dict: the \<^verbatim>\<open>"perplexity"\<close> items onto \<^verbatim>\<open>config.perplexity\<close>, the
  \<^verbatim>\<open>"server"\<close> items onto \<^verbatim>\<open>config.server\<close>, and \<^verbatim>\<open>"debug"\<close> onto \<^verbatim>\<open>config.debug\<close>.
  It has no step for \<^verbatim>\<open>"proxy"\<close> and none for \<^verbatim>\<open>"config_version"\<close>. The block
  \<^verbatim>\<open>if name in d: for key, value in d[name].items(): ...\<close> is \<^verbatim>\<open>apply_section\<close>.
\<close>

definition apply_section ::
  "('s \<Rightarrow> string \<Rightarrow> pyval \<Rightarrow> py_exception + 's) \<Rightarrow> string \<Rightarrow> pyval \<Rightarrow> 's
     \<Rightarrow> py_exception + 's" where
  "apply_section set_attr name d obj =
     and_then (py_contains name d) (\<lambda>present.
       if present then
         and_then (py_getitem d name) (\<lambda>section.
         and_then (py_items section) (\<lambda>items.
         apply_items set_attr obj items))
       else Inr obj)"

definition merge_perplexity :: "pyval \<Rightarrow> AppConfig \<Rightarrow> py_exception + AppConfig" where
  "merge_perplexity d config =
     and_then (apply_section setattr_perplexity ''perplexity'' d (perplexity config)) (\<lambda>p.
     Inr (config\<lparr>perplexity := p\<rparr>))"

definition merge_server :: "pyval \<Rightarrow> AppConfig \<Rightarrow> py_exception + AppConfig" where
  "merge_server d config =
     and_then (apply_section setattr_server ''server'' d (server config)) (\<lambda>s.
     Inr (config\<lparr>server := s\<rparr>))"

definition merge_debug :: "pyval \<Rightarrow> AppConfig \<Rightarrow> py_exception + AppConfig" where
  "merge_debug d config =
     and_then (py_contains ''debug'' d) (\<lambda>present.
       if present then
         and_then (py_getitem d ''debug'') (\<lambda>v. Inr (config\<lparr>debug := v\<rparr>))
       else Inr config)"

definition merge_one :: "pyval \<Rightarrow> AppConfig \<Rightarrow> py_exception + AppConfig" where
  "merge_one d config =
     and_then (merge_perplexity d config) (\<lambda>config.
     and_then (merge_server d config) (\<lambda>config.
     merge_debug d config))"

definition merge_configs :: "pyval \<Rightarrow> pyval \<Rightarrow> py_exception + AppConfig" where
  "merge_configs file_config env_config =
     and_then (merge_one file_config default_config) (\<lambda>config.
     merge_one env_config config)"

subsection \<open>Validation\<close>

text \<open>
  Comparisons of a field with an integer constant: defined for \<^verbatim>\<open>bool\<close>, \<^verbatim>\<open>int\<close>
  and \<^verbatim>\<open>float\<close> (every comparison with NaN is false), \<^verbatim>\<open>TypeError\<close> otherwise.
\<close>

fun py_le :: "pyval \<Rightarrow> int \<Rightarrow> py_exception + bool" where
  "py_le (PBool b) n = Inr ((if b then 1 else 0) \<le> n)"
| "py_le (PInt i) n = Inr (i \<le> n)"
| "py_le (PFloat (Finite r)) n = Inr (r \<le> of_int n)"
| "py_le (PFloat NegInf) n = Inr True"
| "py_le (PFloat f) n = Inr False"
| "py_le v n = Inl TypeError"

fun py_lt :: "pyval \<Rightarrow> int \<Rightarrow> py_exception + bool" where
  "py_lt (PBool b) n = Inr ((if b then 1 else 0) < n)"
| "py_lt (PInt i) n = Inr (i < n)"
| "py_lt (PFloat (Finite r)) n = Inr (r < of_int n)"
| "py_lt (PFloat NegInf) n = Inr True"
| "py_lt (PFloat f) n = Inr False"
| "py_lt v n = Inl TypeError"

fun py_ge :: "pyval \<Rightarrow> int \<Rightarrow> py_exception + bool" where
  "py_ge (PBool b) n = Inr (n \<le> (if b then 1 else 0))"
| "py_ge (PInt i) n = Inr (n \<le> i)"
| "py_ge (PFloat (Finite r)) n = Inr (of_int n \<le> r)"
| "py_ge (PFloat PosInf) n = Inr True"
| "py_ge (PFloat f) n = Inr False"
| "py_ge v n = Inl TypeError"

text \<open>
  \<^verbatim>\<open>_validate_config\<close> collects the failed checks and prints them when there are any;
  it returns nothing and raises only where a comparison does.
\<close>

definition validate_config :: "AppConfig \<Rightarrow> py_exception + message list" where
  "validate_config config =
     (let errors = [];
          errors = (if \<not> truthy (api_key (perplexity config)) then errors @ [ApiKeyNotSet]
                    else errors)
      in
      and_then (py_le (timeout (perplexity config)) 0) (\<lambda>bad_timeout.
      let errors = (if bad_timeout then errors @ [TimeoutNotPositive] else errors) in
      and_then (py_lt (max_retries (perplexity config)) 0) (\<lambda>bad_retries.
      let errors = (if bad_retries then errors @ [MaxRetriesNegative] else errors) in
      and_then (py_ge (port (server config)) 1) (\<lambda>low_ok.
      and_then (if low_ok then py_le (port (server config)) 65535 else Inr False) (\<lambda>port_ok.
      let errors = (if \<not> port_ok then errors @ [PortOutOfRange] else errors) in
      and_then (py_le (max_request_size (server config)) 0) (\<lambda>bad_size.
      let errors = (if bad_size then errors @ [MaxRequestSizeNotPositive] else errors) in
      Inr (if errors \<noteq> [] then [ValidationWarning errors] else [])))))))"

subsection \<open>load_config and save_config\<close>

text \<open>
  \<^verbatim>\<open>load_config\<close> returns what was printed and either the exception that ended it or
  the configuration it returns.
\<close>

definition load_config ::
  "(string \<Rightarrow> int option) \<Rightarrow> (string \<Rightarrow> pyfloat option) \<Rightarrow> config_file \<Rightarrow> environ
     \<Rightarrow> message list \<times> (py_exception + AppConfig)" where
  "load_config py_int py_float file env =
     (case load_from_file file of
        (printed, Inl e) \<Rightarrow> (printed, Inl e)
      | (printed, Inr file_config) \<Rightarrow>
          (let env_config = load_from_env py_int py_float env in
           case merge_configs file_config env_config of
             Inl e \<Rightarrow> (printed, Inl e)
           | Inr config \<Rightarrow>
               (case validate_config config of
                  Inl e \<Rightarrow> (printed, Inl e)
                | Inr warnings \<Rightarrow> (printed @ warnings, Inr config))))"










section \<open>The search tool (server.py)\<close>

subsection \<open>Creating the HTTP client\<close>

text \<open>
  \<^verbatim>\<open>urllib.parse.urlparse\<close> is a parameter: it gives the scheme and the netloc of a
  URL, or \<^verbatim>\<open>None\<close> where it raises. \<^verbatim>\<open>validate_proxy_url\<close> wants both non-empty and
  turns an exception into \<^verbatim>\<open>False\<close>.
\<close>

definition validate_proxy_url :: "(string \<Rightarrow> (string \<times> string) option) \<Rightarrow> string \<Rightarrow> bool" where
  "validate_proxy_url urlparse proxy_url =
     (case urlparse proxy_url of
        None \<Rightarrow> False
      | Some (scheme, netloc) \<Rightarrow> scheme \<noteq> [] \<and> netloc \<noteq> [])"

text \<open>The keyword arguments handed to \<^verbatim>\<open>httpx.AsyncClient\<close>.\<close>

record client_config =
  client_timeout :: pyval
  follow_redirects :: bool
  client_proxy :: "string option"

text \<open>The request \<^verbatim>\<open>client.post\<close> sends: URL, bearer credential and the JSON body.\<close>

record request =
  request_url :: pyval
  bearer :: pyval
  request_model :: pyval
  system_content :: pyval
  user_content :: string

text \<open>
  What \<^verbatim>\<open>httpx\<close> does is a parameter too: whether the constructor raises, and what the
  POST gives: a response (status code, text, and what \<^verbatim>\<open>response.json()\<close> returns or
  raises) or one of the exceptions the handlers tell apart.
\<close>

datatype httpx_exception = TimeoutException | ProxyError string | Other py_exception

datatype http_reply =
    Reply int string "py_exception + pyval"
  | PostRaises httpx_exception

record httpx =
  async_client :: "client_config \<Rightarrow> py_exception option"
  post :: "client_config \<Rightarrow> request \<Rightarrow> http_reply"

text \<open>
  What is printed and what is sent to the caller's context, by kind of message; a
  message carries the values its text is formatted from. \<^verbatim>\<open>print\<close> and the context's
  methods are taken to return normally. \<^verbatim>\<open>ctx\<close> tells whether a context was passed.
\<close>

datatype print_message =
    UsingProxy string
  | InvalidProxyUrl string
  | DirectInvalidProxy
  | DirectNoProxy

datatype ctx_message =
    SearchStarted string
  | ApiKeyMissing
  | UsingModel pyval
  | SystemMessageIs pyval
  | CallingApi
  | RequestFailed int string
  | ResponseStatus int
  | ChoicesMissing
  | EmptyChoices
  | CitationsFound "pyval list"
  | SearchDone string
  | TimedOut pyval
  | CheckProxyAndNetwork
  | ProxyConnectionFailed string
  | CheckProxyConfig
  | HttpError int string
  | UnexpectedError py_exception

datatype level = Info | Error | Debug | Warning

datatype event =
    Ctx level ctx_message
  | Print print_message
  | ClientCreated client_config
  | PostSent client_config request
  | ClientClosed

definition ctx_log :: "bool \<Rightarrow> level \<Rightarrow> ctx_message \<Rightarrow> event list" where
  "ctx_log ctx lvl msg = (if ctx then [Ctx lvl msg] else [])"

definition create_http_client ::
  "(string \<Rightarrow> (string \<times> string) option) \<Rightarrow> httpx \<Rightarrow> AppConfig
     \<Rightarrow> event list \<times> (py_exception + client_config)" where
  "create_http_client urlparse lib config =
     (let cc = \<lparr>client_timeout = timeout (perplexity config), follow_redirects = True,
                client_proxy = None\<rparr>;
          proxy_url = get_httpx_proxy (proxy config);
          (printed, cc) =
            (case proxy_url of
               None \<Rightarrow> ([Print DirectNoProxy], cc)
             | Some u \<Rightarrow>
                 if u \<noteq> [] \<and> validate_proxy_url urlparse u
                 then ([Print (UsingProxy u)], cc\<lparr>client_proxy := Some u\<rparr>)
                 else if u \<noteq> []
                 then ([Print (InvalidProxyUrl u), Print DirectInvalidProxy], cc)
                 else ([Print DirectNoProxy], cc))
      in case async_client lib cc of
           Some e \<Rightarrow> (printed, Inl e)
         | None \<Rightarrow> (printed @ [ClientCreated cc], Inr cc))"

subsection \<open>Model and system message\<close>

text \<open>
  \<^verbatim>\<open>used_model = model or config.perplexity.model\<close>, then the prefix step. A tool
  argument is a string or \<^verbatim>\<open>None\<close>; the configured values are whatever the file gave.
  \<^verbatim>\<open>startswith\<close> exists on strings only and accepts strings only.
\<close>

definition str_or :: "string option \<Rightarrow> pyval \<Rightarrow> pyval" where
  "str_or arg dflt = (case arg of None \<Rightarrow> dflt | Some s \<Rightarrow> if s \<noteq> [] then PStr s else dflt)"

definition apply_model_prefix :: "pyval \<Rightarrow> pyval \<Rightarrow> py_exception + pyval" where
  "apply_model_prefix prefix used_model =
     (if truthy prefix then
        (case used_model of
           PStr m \<Rightarrow>
             (case prefix of
                PStr p \<Rightarrow> Inr (if \<not> startswith m p then PStr (p @ m) else PStr m)
              | _ \<Rightarrow> Inl TypeError)
         | _ \<Rightarrow> Inl AttributeError)
      else Inr used_model)"

definition resolve_model :: "AppConfig \<Rightarrow> string option \<Rightarrow> py_exception + pyval" where
  "resolve_model config model_arg =
     apply_model_prefix (model_prefix (perplexity config))
       (str_or model_arg (model (perplexity config)))"

subsection \<open>Formatting the reply\<close>

text \<open>
  The two literals of the result, as UTF-8 bytes: the text returned for an empty
  \<^verbatim>\<open>choices\<close>, and the header \<^verbatim>\<open>"\n\n....:\n"\<close> put before the citations.
\<close>

definition newline :: char where
  "newline = CHR 0x0A"

definition no_results_text :: string where
  "no_results_text =
     [CHR 0xE6, CHR 0x9C, CHR 0xAA, CHR 0xE6, CHR 0x89, CHR 0xBE, CHR 0xE5, CHR 0x88, CHR 0xB0,
      CHR 0xE6, CHR 0x90, CHR 0x9C, CHR 0xE7, CHR 0xB4, CHR 0xA2, CHR 0xE7, CHR 0xBB, CHR 0x93,
      CHR 0xE6, CHR 0x9E, CHR 0x9C]"

definition citations_header :: string where
  "citations_header =
     [newline, newline,
      CHR 0xE5, CHR 0xBC, CHR 0x95, CHR 0xE7, CHR 0x94, CHR 0xA8, CHR 0xE4, CHR 0xBF, CHR 0xA1,
      CHR 0xE6, CHR 0x81, CHR 0xAF, CHR '':'', newline]"

text \<open>\<^verbatim>\<open>x.get(key, default)\<close>: only a dict has the method.\<close>

fun py_get :: "pyval \<Rightarrow> string \<Rightarrow> pyval \<Rightarrow> py_exception + pyval" where
  "py_get (PDict kvs) key dflt = Inr (attr_or kvs key dflt)"
| "py_get v key dflt = Inl AttributeError"

text \<open>
  Iteration: a list gives its elements, a dict its keys, a string its characters
  (one string per code point, read off the UTF-8 lead bytes); nothing else iterates.
\<close>

definition utf8_width :: "char \<Rightarrow> nat" where
  "utf8_width c =
     (let n = (of_char c :: nat) in
      if n < 0xC0 then 1 else if n < 0xE0 then 2 else if n < 0xF0 then 3 else 4)"

function code_points :: "string \<Rightarrow> string list" where
  "code_points [] = []"
| "code_points (c # cs) =
     take (utf8_width c) (c # cs) # code_points (drop (utf8_width c) (c # cs))"
  by pat_completeness auto
termination
  by (relation "measure length") (auto simp: utf8_width_def Let_def)

fun py_iter :: "pyval \<Rightarrow> py_exception + pyval list" where
  "py_iter (PList xs) = Inr xs"
| "py_iter (PDict kvs) = Inr (map (\<lambda>(key, v). PStr key) kvs)"
| "py_iter (PStr s) = Inr (map PStr (code_points s))"
| "py_iter v = Inl TypeError"

text \<open>
  The loop over \<^verbatim>\<open>choices\<close>: a choice with \<^verbatim>\<open>"message" in choice\<close> and
  \<^verbatim>\<open>"content" in choice["message"]\<close> contributes \<^verbatim>\<open>choice["message"]["content"]\<close>.
\<close>

definition choice_content :: "pyval \<Rightarrow> py_exception + pyval list" where
  "choice_content choice =
     and_then (py_contains ''message'' choice) (\<lambda>has_message.
       if has_message then
         and_then (py_getitem choice ''message'') (\<lambda>message.
         and_then (py_contains ''content'' message) (\<lambda>has_content.
           if has_content then
             and_then (py_getitem message ''content'') (\<lambda>content. Inr [content])
           else Inr []))
       else Inr [])"

fun content_parts :: "pyval list \<Rightarrow> py_exception + pyval list" where
  "content_parts [] = Inr []"
| "content_parts (choice # rest) =
     (case choice_content choice of
        Inl e \<Rightarrow> Inl e
      | Inr part \<Rightarrow>
          (case content_parts rest of
             Inl e \<Rightarrow> Inl e
           | Inr parts \<Rightarrow> Inr (part @ parts)))"

text \<open>\<^verbatim>\<open>sep.join(parts)\<close>: every part must be a string.\<close>

fun str_join :: "string \<Rightarrow> string list \<Rightarrow> string" where
  "str_join sep [] = []"
| "str_join sep [s] = s"
| "str_join sep (s # t # rest) = s @ sep @ str_join sep (t # rest)"

fun all_strings :: "pyval list \<Rightarrow> py_exception + string list" where
  "all_strings [] = Inr []"
| "all_strings (PStr s # rest) =
     (case all_strings rest of Inl e \<Rightarrow> Inl e | Inr ss \<Rightarrow> Inr (s # ss))"
| "all_strings (v # rest) = Inl TypeError"

definition py_join :: "string \<Rightarrow> pyval list \<Rightarrow> py_exception + string" where
  "py_join sep parts = and_then (all_strings parts) (\<lambda>ss. Inr (str_join sep ss))"

text \<open>Decimal digits of a number, as an f-string writes an \<^verbatim>\<open>int\<close>.\<close>

definition digit_char :: "nat \<Rightarrow> char" where
  "digit_char n = char_of (48 + n)"

function str_of_nat :: "nat \<Rightarrow> string" where
  "str_of_nat n = (if n < 10 then [digit_char n] else str_of_nat (n div 10) @ [digit_char (n mod 10)])"
  by pat_completeness auto
termination
  by (relation "measure id") auto

text \<open>
  An f-string writes a string as it is; for any other value it calls the built-in
  \<^verbatim>\<open>str\<close>, a parameter \<^verbatim>\<open>py_str\<close>. The loop
  \<^verbatim>\<open>for index, citation in enumerate(citations, 1)\<close> appends one line per citation.
\<close>

definition py_format :: "(pyval \<Rightarrow> string) \<Rightarrow> pyval \<Rightarrow> string" where
  "py_format py_str v = (case v of PStr s \<Rightarrow> s | _ \<Rightarrow> py_str v)"

fun citation_lines :: "(pyval \<Rightarrow> string) \<Rightarrow> nat \<Rightarrow> pyval list \<Rightarrow> string" where
  "citation_lines py_str index [] = []"
| "citation_lines py_str index (citation # rest) =
     (''['' @ str_of_nat index @ ''] '' @ py_format py_str citation @ [newline])
       @ citation_lines py_str (Suc index) rest"

text \<open>
  The part of \<^verbatim>\<open>search\<close> after the response body was parsed: the events sent to the
  context and the text returned or the exception raised.
\<close>

definition process_response ::
  "(pyval \<Rightarrow> string) \<Rightarrow> bool \<Rightarrow> pyval \<Rightarrow> event list \<times> (py_exception + string)" where
  "process_response py_str ctx response_data =
     (case py_contains ''choices'' response_data of
        Inl e \<Rightarrow> ([], Inl e)
      | Inr has_choices \<Rightarrow>
          if \<not> has_choices then (ctx_log ctx Error ChoicesMissing, Inl MissingChoicesValueError)
          else
            (case py_get response_data ''choices'' (PList []) of
               Inl e \<Rightarrow> ([], Inl e)
             | Inr choices \<Rightarrow>
                 if \<not> truthy choices then (ctx_log ctx Warning EmptyChoices, Inr no_results_text)
                 else
                   (case and_then (py_iter choices) (\<lambda>cs.
                         and_then (content_parts cs) (\<lambda>parts. py_join '' '' parts)) of
                      Inl e \<Rightarrow> ([], Inl e)
                    | Inr content \<Rightarrow>
                        (case py_get response_data ''citations'' (PList []) of
                           Inl e \<Rightarrow> ([], Inl e)
                         | Inr citations \<Rightarrow>
                             if truthy citations then
                               (case py_iter citations of
                                  Inl e \<Rightarrow> ([], Inl e)
                                | Inr cs \<Rightarrow>
                                    (ctx_log ctx Info (CitationsFound cs)
                                       @ ctx_log ctx Info (SearchDone content),
                                     Inr (content @ citations_header
                                            @ citation_lines py_str 1 cs)))
                             else (ctx_log ctx Info (SearchDone content), Inr content)))))"

subsection \<open>The call\<close>

text \<open>The four \<^verbatim>\<open>except\<close> clauses: what is sent to the context and what is raised.\<close>

definition handle_exception ::
  "AppConfig \<Rightarrow> bool \<Rightarrow> httpx_exception \<Rightarrow> event list \<times> py_exception" where
  "handle_exception config ctx e =
     (case e of
        TimeoutException \<Rightarrow>
          (ctx_log ctx Error (TimedOut (timeout (perplexity config)))
             @ (if get_proxy_config (proxy config) \<noteq> [] then ctx_log ctx Error CheckProxyAndNetwork
                else []),
           TimeoutError)
      | ProxyError text \<Rightarrow>
          (ctx_log ctx Error (ProxyConnectionFailed text) @ ctx_log ctx Error CheckProxyConfig,
           ConnectionError)
      | Other (HTTPStatusError status text) \<Rightarrow>
          (ctx_log ctx Error (HttpError status text), HTTPStatusError status text)
      | Other x \<Rightarrow> (ctx_log ctx Error (UnexpectedError x), x))"

text \<open>
  The \<^verbatim>\<open>try\<close> block: create the client, POST inside \<^verbatim>\<open>async with client\<close> (which closes
  the client on every way out), check the status, parse, and format.
\<close>

definition call_api ::
  "(string \<Rightarrow> (string \<times> string) option) \<Rightarrow> httpx \<Rightarrow> (pyval \<Rightarrow> string) \<Rightarrow> AppConfig \<Rightarrow> bool
     \<Rightarrow> request \<Rightarrow> event list \<times> (httpx_exception + string)" where
  "call_api urlparse lib py_str config ctx req =
     (let started = ctx_log ctx Info CallingApi in
      case create_http_client urlparse lib config of
        (printed, Inl e) \<Rightarrow> (started @ printed, Inl (Other e))
      | (printed, Inr client) \<Rightarrow>
          (let sent = started @ printed @ [PostSent client req] in
           case post lib client req of
             PostRaises e \<Rightarrow> (sent @ [ClientClosed], Inl e)
           | Reply status text body \<Rightarrow>
               if status \<noteq> 200 then
                 (sent @ ctx_log ctx Error (RequestFailed status text) @ [ClientClosed],
                  Inl (Other (HTTPStatusError status text)))
               else
                 (case body of
                    Inl e \<Rightarrow> (sent @ [ClientClosed], Inl (Other e))
                  | Inr response_data \<Rightarrow>
                      (case process_response py_str ctx response_data of
                         (evs, Inl e) \<Rightarrow>
                           (sent @ ctx_log ctx Debug (ResponseStatus status) @ [ClientClosed] @ evs,
                            Inl (Other e))
                       | (evs, Inr result) \<Rightarrow>
                           (sent @ ctx_log ctx Debug (ResponseStatus status) @ [ClientClosed] @ evs,
                            Inr result)))))"

definition search ::
  "(string \<Rightarrow> (string \<times> string) option) \<Rightarrow> httpx \<Rightarrow> (pyval \<Rightarrow> string) \<Rightarrow> AppConfig \<Rightarrow> bool
     \<Rightarrow> string \<Rightarrow> string option \<Rightarrow> string option \<Rightarrow> event list \<times> (py_exception + string)" where
  "search urlparse lib py_str config ctx keyword model_arg system_message_arg =
     (let begun = ctx_log ctx Info (SearchStarted keyword) in
      if \<not> truthy (api_key (perplexity config)) then
        (begun @ ctx_log ctx Error ApiKeyMissing, Inl MissingApiKeyValueError)
      else
        (case resolve_model config model_arg of
           Inl e \<Rightarrow> (begun, Inl e)
         | Inr used_model \<Rightarrow>
             (let used_system_message =
                    str_or system_message_arg (system_message (perplexity config));
                  noted = begun @ ctx_log ctx Info (UsingModel used_model)
                            @ ctx_log ctx Debug (SystemMessageIs used_system_message);
                  req = \<lparr>request_url = api_url (perplexity config),
                         bearer = api_key (perplexity config),
                         request_model = used_model,
                         system_content = used_system_message,
                         user_content = keyword\<rparr>
              in case call_api urlparse lib py_str config ctx req of
                   (evs, Inr result) \<Rightarrow> (noted @ evs, Inr result)
                 | (evs, Inl e) \<Rightarrow>
                     (case handle_exception config ctx e of
                        (told, raised) \<Rightarrow> (noted @ evs @ told, Inl raised)))))"

section \<open>Vocabulary of the properties\<close>

subsection \<open>What the file and the environment set\<close>

text \<open>
  The value a document gives a field: the entry \<^verbatim>\<open>key\<close> of its object \<^verbatim>\<open>sec\<close>.
  A file that is missing, unreadable or not JSON gives none.
\<close>

definition section_value :: "pyval \<Rightarrow> string \<Rightarrow> string \<Rightarrow> pyval option" where
  "section_value d sec key =
     (case d of
        PDict ents \<Rightarrow> (case map_of ents sec of Some (PDict kvs) \<Rightarrow> map_of kvs key | _ \<Rightarrow> None)
      | _ \<Rightarrow> None)"

definition file_value :: "config_file \<Rightarrow> string \<Rightarrow> string \<Rightarrow> pyval option" where
  "file_value file sec key = (case file of Json d \<Rightarrow> section_value d sec key | _ \<Rightarrow> None)"

text \<open>
  The value the environment gives a field: the variable is set, is not empty and, for
  a number, parses.
\<close>

definition env_str :: "environ \<Rightarrow> string \<Rightarrow> pyval option" where
  "env_str env name =
     (case env name of None \<Rightarrow> None | Some s \<Rightarrow> if s = [] then None else Some (PStr s))"

definition env_int :: "(string \<Rightarrow> int option) \<Rightarrow> environ \<Rightarrow> string \<Rightarrow> pyval option" where
  "env_int py_int env name =
     (case env name of
        None \<Rightarrow> None
      | Some s \<Rightarrow> if s = [] then None else map_option PInt (py_int s))"

definition env_float :: "(string \<Rightarrow> pyfloat option) \<Rightarrow> environ \<Rightarrow> string \<Rightarrow> pyval option" where
  "env_float py_float env name =
     (case env name of
        None \<Rightarrow> None
      | Some s \<Rightarrow> if s = [] then None else map_option PFloat (py_float s))"

definition env_bool :: "environ \<Rightarrow> string \<Rightarrow> pyval option" where
  "env_bool env name =
     (case env name of
        None \<Rightarrow> None
      | Some s \<Rightarrow> if s = [] then None
                  else Some (PBool (str_lower s \<in> {''true'', ''1'', ''yes'', ''on''})))"

text \<open>Precedence: the environment's value, else the file's, else the default.\<close>

definition by_precedence :: "pyval option \<Rightarrow> pyval option \<Rightarrow> pyval \<Rightarrow> pyval" where
  "by_precedence from_env from_file dflt =
     (case from_env of
        Some v \<Rightarrow> v
      | None \<Rightarrow> (case from_file of Some v \<Rightarrow> v | None \<Rightarrow> dflt))"

text \<open>
  A section is plain when, being an object, it has distinct keys (as every dict has)
  and no key \<^verbatim>\<open>__dict__\<close>.
\<close>

definition plain_section :: "pyval \<Rightarrow> string \<Rightarrow> bool" where
  "plain_section d sec =
     (case d of
        PDict ents \<Rightarrow>
          (case map_of ents sec of
             Some (PDict kvs) \<Rightarrow> distinct (map fst kvs) \<and> ''__dict__'' \<notin> fst ` set kvs
           | _ \<Rightarrow> True)
      | _ \<Rightarrow> True)"

definition plain_file :: "config_file \<Rightarrow> bool" where
  "plain_file file =
     (case file of
        Json d \<Rightarrow> plain_section d ''perplexity'' \<and> plain_section d ''server''
      | _ \<Rightarrow> True)"

text \<open>
  A well-shaped file: missing, unreadable (also where \<^verbatim>\<open>json.load\<close> raises an
  \<^verbatim>\<open>IOError\<close>), not JSON, or a loaded JSON document of one of two kinds. The first is
  an object whose \<^verbatim>\<open>perplexity\<close> and \<^verbatim>\<open>server\<close> members, where present, are objects with
  distinct keys, none of them \<^verbatim>\<open>__class__\<close>, \<^verbatim>\<open>__dict__\<close> or \<^verbatim>\<open>__weakref__\<close>, and with
  numbers for the fields that validation compares. The second is a document that is
  not an object and in which \<^verbatim>\<open>"perplexity" in\<close>, \<^verbatim>\<open>"server" in\<close> and \<^verbatim>\<open>"debug" in\<close> are
  all false: an array without these strings as elements, a string without them as
  substrings.
\<close>

fun numeric :: "pyval \<Rightarrow> bool" where
  "numeric (PBool b) = True"
| "numeric (PInt i) = True"
| "numeric (PFloat f) = True"
| "numeric v = False"

definition special_attributes :: "string list" where
  "special_attributes = [''__class__'', ''__dict__'', ''__weakref__'']"

definition section_ok :: "pyval \<Rightarrow> string \<Rightarrow> string list \<Rightarrow> bool" where
  "section_ok d sec numeric_fields =
     (case d of
        PDict ents \<Rightarrow>
          (case map_of ents sec of
             None \<Rightarrow> True
           | Some (PDict kvs) \<Rightarrow>
               distinct (map fst kvs)
               \<and> list_all (\<lambda>(key, v). key \<notin> set special_attributes
                                     \<and> (key \<in> set numeric_fields \<longrightarrow> numeric v)) kvs
           | Some _ \<Rightarrow> False)
      | _ \<Rightarrow> py_contains sec d = Inr False)"

definition debug_ok :: "pyval \<Rightarrow> bool" where
  "debug_ok d = (case d of PDict ents \<Rightarrow> True | _ \<Rightarrow> py_contains ''debug'' d = Inr False)"

fun well_shaped :: "config_file \<Rightarrow> bool" where
  "well_shaped Missing = True"
| "well_shaped Unreadable = True"
| "well_shaped NotJson = True"
| "well_shaped Undecodable = False"
| "well_shaped Inaccessible = False"
| "well_shaped (LoadRaises e) = os_error e"
| "well_shaped (Json d) =
     (section_ok d ''perplexity'' [''timeout'', ''max_retries'']
      \<and> section_ok d ''server'' [''port'', ''max_request_size'']
      \<and> debug_ok d)"

subsection \<open>Choices and citations\<close>

text \<open>
  The message content of a choice, where it has one; and the choices the formatting
  accepts. These are the choices in which \<^verbatim>\<open>"message" in choice\<close> is false (an object
  without that member, but also an array without that element and a string without
  that substring), and the objects whose \<^verbatim>\<open>message\<close> either has
  \<^verbatim>\<open>"content" in message\<close> false, in the same sense, or is an object whose \<^verbatim>\<open>content\<close>
  is a string.
\<close>

fun choice_text :: "pyval \<Rightarrow> string option" where
  "choice_text (PDict c) =
     (case map_of c ''message'' of
        Some (PDict m) \<Rightarrow> (case map_of m ''content'' of Some (PStr s) \<Rightarrow> Some s | _ \<Rightarrow> None)
      | _ \<Rightarrow> None)"
| "choice_text v = None"

fun well_formed_choice :: "pyval \<Rightarrow> bool" where
  "well_formed_choice (PDict c) =
     (case map_of c ''message'' of
        None \<Rightarrow> True
      | Some (PDict m) \<Rightarrow>
          (case map_of m ''content'' of None \<Rightarrow> True | Some (PStr s) \<Rightarrow> True | Some _ \<Rightarrow> False)
      | Some message \<Rightarrow> py_contains ''content'' message = Inr False)"
| "well_formed_choice choice = (py_contains ''message'' choice = Inr False)"

text \<open>The citation block: the header and the line \<^verbatim>\<open>[i] citation\<close> for each, from 1.\<close>

definition citation_block :: "string list \<Rightarrow> string" where
  "citation_block cs =
     citations_header
       @ concat (map (\<lambda>(i, c). ''['' @ str_of_nat i @ ''] '' @ c @ [newline])
                   (zip [1 ..< Suc (length cs)] cs))"

subsection \<open>The requests of a call\<close>

text \<open>The requests posted in a trace, in order.\<close>

fun requests_sent :: "event list \<Rightarrow> request list" where
  "requests_sent [] = []"
| "requests_sent (PostSent cc req # evs) = req # requests_sent evs"
| "requests_sent (e # evs) = requests_sent evs"

subsection \<open>Instances of the parameters\<close>

text \<open>
  For evaluation at concrete inputs. \<^verbatim>\<open>plain_int\<close> reads an optional sign and ASCII
  digits, \<^verbatim>\<open>plain_float\<close> the same strings as floats, and both reject every other
  string; \<^verbatim>\<open>plain_urlparse\<close> splits a URL at the first \<^verbatim>\<open>://\<close> and ends the netloc
  at the next \<^verbatim>\<open>/\<close>, \<^verbatim>\<open>?\<close> or \<^verbatim>\<open>#\<close>; \<^verbatim>\<open>plain_str\<close> writes \<^verbatim>\<open>None\<close>, booleans and
  integers. On the inputs evaluated below they agree with \<^verbatim>\<open>int\<close>, \<^verbatim>\<open>float\<close>,
  \<^verbatim>\<open>urlparse\<close> and \<^verbatim>\<open>str\<close>. \<^verbatim>\<open>stub_httpx\<close> is a transport whose constructor succeeds
  and whose POST gives a fixed reply.
\<close>

fun digits_value :: "nat \<Rightarrow> string \<Rightarrow> nat option" where
  "digits_value acc [] = Some acc"
| "digits_value acc (c # cs) =
     (let n = (of_char c :: nat) in
      if 48 \<le> n \<and> n \<le> 57 then digits_value (10 * acc + (n - 48)) cs else None)"

definition plain_int :: "string \<Rightarrow> int option" where
  "plain_int s =
     (case s of
        [] \<Rightarrow> None
      | c # cs \<Rightarrow>
          if c = CHR ''-'' then (if cs = [] then None
                                 else map_option (\<lambda>n. - int n) (digits_value 0 cs))
          else if c = CHR ''+'' then (if cs = [] then None
                                      else map_option int (digits_value 0 cs))
          else map_option int (digits_value 0 s))"

definition plain_float :: "string \<Rightarrow> pyfloat option" where
  "plain_float s = map_option (\<lambda>i. Finite (of_int i)) (plain_int s)"

fun split_scheme :: "string \<Rightarrow> string \<Rightarrow> (string \<times> string) option" where
  "split_scheme acc [] = None"
| "split_scheme acc (c # cs) =
     (if startswith (c # cs) ''://'' then Some (acc, drop 3 (c # cs))
      else split_scheme (acc @ [c]) cs)"

definition plain_urlparse :: "string \<Rightarrow> (string \<times> string) option" where
  "plain_urlparse u =
     (case split_scheme [] u of
        None \<Rightarrow> Some ([], [])
      | Some (scheme, rest) \<Rightarrow> Some (scheme, takeWhile (\<lambda>c. c \<notin> set ''/?#'') rest))"

fun plain_str :: "pyval \<Rightarrow> string" where
  "plain_str PNone = ''None''"
| "plain_str (PBool b) = (if b then ''True'' else ''False'')"
| "plain_str (PInt i) = (if i < 0 then ''-'' @ str_of_nat (nat (- i)) else str_of_nat (nat i))"
| "plain_str v = []"

definition stub_httpx :: "http_reply \<Rightarrow> httpx" where
  "stub_httpx reply = \<lparr>async_client = (\<lambda>cc. None), post = (\<lambda>cc req. reply)\<rparr>"







text \<open>A configuration file and an environment to evaluate \<^verbatim>\<open>load_config\<close> on.\<close>

definition example_file :: config_file where
  "example_file =
     Json (PDict
       [(''perplexity'',
           PDict [(''api_key'', PStr ''file-key''), (''model'', PStr ''sonar-pro''),
                  (''timeout'', PInt 10)]),
        (''server'', PDict [(''port'', PInt 9000)]),
        (''debug'', PBool False)])"

definition example_env :: environ where
  "example_env =
     [''PERPLEXITY_MODEL'' \<mapsto> ''sonar-reasoning'', ''MCP_PORT'' \<mapsto> ''8080'',
      ''DEBUG'' \<mapsto> ''Yes'']"

definition example_config :: AppConfig where
  "example_config =
     default_config
       \<lparr>perplexity :=
          default_perplexity
            \<lparr>api_key := PStr ''file-key'', model := PStr ''sonar-reasoning'',
             timeout := PInt 10\<rparr>,
        server := default_server\<lparr>port := PInt 8080\<rparr>,
        debug := PBool True\<rparr>"

subsection \<open>What \<^verbatim>\<open>setattr\<close> does to a field\<close>

text \<open>
  \<^verbatim>\<open>stores set_attr get f\<close>: storing under a name other than \<^verbatim>\<open>__dict__\<close> changes
  the field \<^verbatim>\<open>f\<close>, read by \<^verbatim>\<open>get\<close>, exactly when the name is \<^verbatim>\<open>f\<close>.
  \<^verbatim>\<open>accepts set_attr\<close>: storing under a name that is not special never raises.
\<close>

definition stores ::
  "('s \<Rightarrow> string \<Rightarrow> pyval \<Rightarrow> py_exception + 's) \<Rightarrow> ('s \<Rightarrow> pyval) \<Rightarrow> string \<Rightarrow> bool" where
  "stores set_attr get f =
     (\<forall>s key v s'. set_attr s key v = Inr s' \<longrightarrow> key \<noteq> ''__dict__'' \<longrightarrow>
        get s' = (if key = f then v else get s))"

definition accepts :: "('s \<Rightarrow> string \<Rightarrow> pyval \<Rightarrow> py_exception + 's) \<Rightarrow> bool" where
  "accepts set_attr =
     (\<forall>s key v. key \<notin> set special_attributes \<longrightarrow> (\<exists>s'. set_attr s key v = Inr s'))"

section \<open>The single effective proxy\<close>

lemma get_httpx_proxy_eq:
  "get_httpx_proxy self =
     (if https_proxy self \<noteq> [] then Some (https_proxy self)
      else if all_proxy self \<noteq> [] then Some (all_proxy self)
      else if http_proxy self \<noteq> [] then Some (http_proxy self)
      else None)"
  by (simp add: get_httpx_proxy_def get_proxy_config_def Let_def)

text \<open>
  C6. The single effective proxy of any \<^verbatim>\<open>ProxySettings\<close>, where a field is set when
  it is not the empty string: only \<^verbatim>\<open>https_proxy\<close> set gives \<^verbatim>\<open>https_proxy\<close>; only
  \<^verbatim>\<open>http_proxy\<close> set gives \<^verbatim>\<open>http_proxy\<close>; both set gives \<^verbatim>\<open>https_proxy\<close>
  (whatever \<^verbatim>\<open>all_proxy\<close> is); neither scheme-specific field set and \<^verbatim>\<open>all_proxy\<close>
  set gives \<^verbatim>\<open>all_proxy\<close>; nothing set gives none.
\<close>

theorem get_httpx_proxy_cases:
  "(https_proxy self \<noteq> [] \<and> http_proxy self = [] \<and> all_proxy self = []
      \<longrightarrow> get_httpx_proxy self = Some (https_proxy self))
   \<and> (http_proxy self \<noteq> [] \<and> https_proxy self = [] \<and> all_proxy self = []
      \<longrightarrow> get_httpx_proxy self = Some (http_proxy self))
   \<and> (http_proxy self \<noteq> [] \<and> https_proxy self \<noteq> []
      \<longrightarrow> get_httpx_proxy self = Some (https_proxy self))
   \<and> (http_proxy self = [] \<and> https_proxy self = [] \<and> all_proxy self \<noteq> []
      \<longrightarrow> get_httpx_proxy self = Some (all_proxy self))
   \<and> (http_proxy self = [] \<and> https_proxy self = [] \<and> all_proxy self = []
      \<longrightarrow> get_httpx_proxy self = None)"
  by (simp add: get_httpx_proxy_eq)

theorem get_httpx_proxy_cases_witness:
  "get_httpx_proxy \<lparr>http_proxy = '''', https_proxy = ''https://p:1'', all_proxy = '''',
                    no_proxy = ''''\<rparr> = Some ''https://p:1''
   \<and> get_httpx_proxy \<lparr>http_proxy = ''http://q:2'', https_proxy = '''', all_proxy = '''',
                    no_proxy = ''''\<rparr> = Some ''http://q:2''
   \<and> get_httpx_proxy \<lparr>http_proxy = ''http://q:2'', https_proxy = ''https://p:1'',
                    all_proxy = ''socks5://r:3'', no_proxy = ''''\<rparr> = Some ''https://p:1''
   \<and> get_httpx_proxy \<lparr>http_proxy = '''', https_proxy = '''', all_proxy = ''socks5://r:3'',
                    no_proxy = ''''\<rparr> = Some ''socks5://r:3''
   \<and> get_httpx_proxy \<lparr>http_proxy = '''', https_proxy = '''', all_proxy = '''',
                    no_proxy = ''localhost''\<rparr> = None"
  using
    get_httpx_proxy_cases [of "\<lparr>http_proxy = '''', https_proxy = ''https://p:1'',
      all_proxy = '''', no_proxy = ''''\<rparr>"]
    get_httpx_proxy_cases [of "\<lparr>http_proxy = ''http://q:2'', https_proxy = '''',
      all_proxy = '''', no_proxy = ''''\<rparr>"]
    get_httpx_proxy_cases [of "\<lparr>http_proxy = ''http://q:2'', https_proxy = ''https://p:1'',
      all_proxy = ''socks5://r:3'', no_proxy = ''''\<rparr>"]
    get_httpx_proxy_cases [of "\<lparr>http_proxy = '''', https_proxy = '''',
      all_proxy = ''socks5://r:3'', no_proxy = ''''\<rparr>"]
    get_httpx_proxy_cases [of "\<lparr>http_proxy = '''', https_proxy = '''', all_proxy = '''',
      no_proxy = ''localhost''\<rparr>"]
  by simp

section \<open>Merging, field by field\<close>

lemma and_then_Inr [simp]: "and_then (Inr x) f = f x"
  by (simp add: and_then_def)

lemma and_then_Inl [simp]: "and_then (Inl e) f = Inl e"
  by (simp add: and_then_def)

lemma and_then_eq_Inr: "and_then m f = Inr y \<longleftrightarrow> (\<exists>x. m = Inr x \<and> f x = Inr y)"
  by (cases m) simp_all

lemma stores_perplexity:
  "stores setattr_perplexity api_key ''api_key''"
  "stores setattr_perplexity api_url ''api_url''"
  "stores setattr_perplexity model ''model''"
  "stores setattr_perplexity model_prefix ''model_prefix''"
  "stores setattr_perplexity system_message ''system_message''"
  "stores setattr_perplexity timeout ''timeout''"
  "stores setattr_perplexity max_retries ''max_retries''"
  "stores setattr_perplexity retry_delay ''retry_delay''"
  unfolding stores_def
  by (auto simp: setattr_perplexity_def split: if_splits)

lemma stores_server:
  "stores setattr_server host ''host''"
  "stores setattr_server port ''port''"
  "stores setattr_server path ''path''"
  "stores setattr_server log_level ''log_level''"
  "stores setattr_server enable_cors ''enable_cors''"
  "stores setattr_server max_request_size ''max_request_size''"
  unfolding stores_def
  by (auto simp: setattr_server_def split: if_splits)

lemma accepts_perplexity: "accepts setattr_perplexity"
  unfolding accepts_def by (simp add: setattr_perplexity_def special_attributes_def)

lemma accepts_server: "accepts setattr_server"
  unfolding accepts_def by (simp add: setattr_server_def special_attributes_def)

lemma apply_items_field:
  assumes "stores set_attr get f"
  shows "apply_items set_attr s kvs = Inr s' \<Longrightarrow> distinct (map fst kvs) \<Longrightarrow>
         ''__dict__'' \<notin> fst ` set kvs \<Longrightarrow> get s' = attr_or kvs f (get s)"
proof (induction kvs arbitrary: s)
  case Nil
  then show ?case by (simp add: attr_or_def)
next
  case (Cons a rest)
  obtain key v where a: "a = (key, v)" by (cases a)
  from Cons.prems(1) a obtain s1 where
    s1: "set_attr s key v = Inr s1" and rest: "apply_items set_attr s1 rest = Inr s'"
    by (auto split: sum.splits)
  from Cons.prems a have key: "key \<noteq> ''__dict__''" and d: "distinct (map fst rest)"
    and nd: "''__dict__'' \<notin> fst ` set rest" and fresh: "key \<notin> fst ` set rest"
    by auto
  from assms s1 key have g1: "get s1 = (if key = f then v else get s)"
    unfolding stores_def by blast
  from Cons.IH [OF rest d nd] have g': "get s' = attr_or rest f (get s1)" .
  show ?case
  proof (cases "key = f")
    case True
    with fresh have "map_of rest f = None" by (simp add: map_of_eq_None_iff)
    with g' g1 True a show ?thesis by (simp add: attr_or_def)
  next
    case False
    with g' g1 a show ?thesis by (simp add: attr_or_def)
  qed
qed

lemma apply_items_returns:
  assumes "accepts set_attr"
  shows "list_all (\<lambda>(key, v). key \<notin> set special_attributes) kvs \<Longrightarrow>
         \<exists>s'. apply_items set_attr s kvs = Inr s'"
proof (induction kvs arbitrary: s)
  case Nil
  then show ?case by simp
next
  case (Cons a rest)
  obtain key v where a: "a = (key, v)" by (cases a)
  with Cons.prems have "key \<notin> set special_attributes" by simp
  with assms obtain s1 where s1: "set_attr s key v = Inr s1"
    unfolding accepts_def by blast
  from Cons.prems have "list_all (\<lambda>(key, v). key \<notin> set special_attributes) rest" by simp
  from Cons.IH [OF this] obtain s' where "apply_items set_attr s1 rest = Inr s'" by blast
  with s1 a show ?case by simp
qed

lemma map_of_present: "map_of ents sec = Some v \<Longrightarrow> sec \<in> fst ` set ents"
  by (metis map_of_eq_None_iff option.distinct(1))

lemma apply_section_field:
  assumes "stores set_attr get f"
    and "apply_section set_attr sec d obj = Inr obj'"
    and "plain_section d sec"
  shows "get obj' = (case section_value d sec f of Some v \<Rightarrow> v | None \<Rightarrow> get obj)"
proof (cases d)
  case (PDict ents)
  show ?thesis
  proof (cases "map_of ents sec")
    case None
    then have "sec \<notin> fst ` set ents" by (simp add: map_of_eq_None_iff)
    with assms(2) PDict None show ?thesis
      by (simp add: apply_section_def section_value_def)
  next
    case (Some sct)
    note present = map_of_present [OF Some]
    from assms(2) PDict Some present obtain kvs where
      sec: "sct = PDict kvs" and p: "apply_items set_attr obj kvs = Inr obj'"
      by (cases sct) (auto simp: apply_section_def)
    from assms(3) PDict Some sec have "distinct (map fst kvs)" "''__dict__'' \<notin> fst ` set kvs"
      by (simp_all add: plain_section_def)
    from apply_items_field [OF assms(1) p this]
    show ?thesis using PDict Some sec
      by (simp add: section_value_def attr_or_def)
  qed
qed (use assms(2) in \<open>auto simp: apply_section_def section_value_def split: if_splits\<close>)


lemma merge_debug_frame:
  assumes "merge_debug d c = Inr c'"
  shows "perplexity c' = perplexity c \<and> server c' = server c \<and> proxy c' = proxy c
         \<and> config_version c' = config_version c"
  using assms
  by (auto simp: merge_debug_def and_then_eq_Inr split: if_splits)

lemma merge_one_parts:
  assumes "merge_one d c = Inr c'"
  shows "apply_section setattr_perplexity ''perplexity'' d (perplexity c) = Inr (perplexity c')
         \<and> apply_section setattr_server ''server'' d (server c) = Inr (server c')
         \<and> proxy c' = proxy c \<and> config_version c' = config_version c"
proof -
  from assms obtain c1 c2 where
    c1: "merge_perplexity d c = Inr c1" and c2: "merge_server d c1 = Inr c2"
    and c3: "merge_debug d c2 = Inr c'"
    by (auto simp: merge_one_def and_then_eq_Inr)
  from c1 obtain p where p: "apply_section setattr_perplexity ''perplexity'' d (perplexity c) = Inr p"
    and c1_eq: "c1 = c\<lparr>perplexity := p\<rparr>"
    by (auto simp: merge_perplexity_def and_then_eq_Inr)
  from c2 obtain s where s: "apply_section setattr_server ''server'' d (server c1) = Inr s"
    and c2_eq: "c2 = c1\<lparr>server := s\<rparr>"
    by (auto simp: merge_server_def and_then_eq_Inr)
  from merge_debug_frame [OF c3] p s c1_eq c2_eq show ?thesis by simp
qed

lemma merge_configs_parts:
  assumes "merge_configs fc ec = Inr c"
  obtains c1 where "merge_one fc default_config = Inr c1" and "merge_one ec c1 = Inr c"
  using assms by (auto simp: merge_configs_def and_then_eq_Inr)

lemma merge_configs_perplexity:
  assumes st: "stores setattr_perplexity get f"
    and m: "merge_configs fc ec = Inr c"
    and pf: "plain_section fc ''perplexity''" and pe: "plain_section ec ''perplexity''"
  shows "get (perplexity c) =
           by_precedence (section_value ec ''perplexity'' f) (section_value fc ''perplexity'' f)
             (get default_perplexity)"
proof -
  from m obtain c1 where c1: "merge_one fc default_config = Inr c1" and c: "merge_one ec c1 = Inr c"
    by (rule merge_configs_parts)
  from merge_one_parts [OF c1] have
    "apply_section setattr_perplexity ''perplexity'' fc default_perplexity = Inr (perplexity c1)"
    by (simp add: default_config_def)
  from apply_section_field [OF st this pf] have g1:
    "get (perplexity c1) =
       (case section_value fc ''perplexity'' f of Some v \<Rightarrow> v | None \<Rightarrow> get default_perplexity)" .
  from merge_one_parts [OF c] have
    "apply_section setattr_perplexity ''perplexity'' ec (perplexity c1) = Inr (perplexity c)"
    by simp
  from apply_section_field [OF st this pe] g1 show ?thesis
    by (simp add: by_precedence_def split: option.splits)
qed

lemma merge_configs_server:
  assumes st: "stores setattr_server get f"
    and m: "merge_configs fc ec = Inr c"
    and pf: "plain_section fc ''server''" and pe: "plain_section ec ''server''"
  shows "get (server c) =
           by_precedence (section_value ec ''server'' f) (section_value fc ''server'' f)
             (get default_server)"
proof -
  from m obtain c1 where c1: "merge_one fc default_config = Inr c1" and c: "merge_one ec c1 = Inr c"
    by (rule merge_configs_parts)
  from merge_one_parts [OF c1] have
    "apply_section setattr_server ''server'' fc default_server = Inr (server c1)"
    by (simp add: default_config_def)
  from apply_section_field [OF st this pf] have g1:
    "get (server c1) =
       (case section_value fc ''server'' f of Some v \<Rightarrow> v | None \<Rightarrow> get default_server)" .
  from merge_one_parts [OF c] have
    "apply_section setattr_server ''server'' ec (server c1) = Inr (server c)"
    by simp
  from apply_section_field [OF st this pe] g1 show ?thesis
    by (simp add: by_precedence_def split: option.splits)
qed

lemma merge_configs_untouched:
  assumes "merge_configs fc ec = Inr c"
  shows "proxy c = default_proxy \<and> config_version c = ''1.0''"
proof -
  from assms obtain c1 where c1: "merge_one fc default_config = Inr c1" and c: "merge_one ec c1 = Inr c"
    by (rule merge_configs_parts)
  from merge_one_parts [OF c1] merge_one_parts [OF c] show ?thesis
    by (simp add: default_config_def)
qed

lemma map_of_filter_values:
  "distinct (map fst kvs) \<Longrightarrow>
   map_of (filter (\<lambda>(key, v). P v) kvs) k =
     (case map_of kvs k of Some v \<Rightarrow> if P v then Some v else None | None \<Rightarrow> None)"
proof (induction kvs)
  case Nil
  then show ?case by simp
next
  case (Cons a kvs)
  obtain key v where a: "a = (key, v)" by (cases a)
  with Cons.prems have "key \<notin> fst ` set kvs" by auto
  then have "map_of kvs key = None" by (simp add: map_of_eq_None_iff)
  with Cons a show ?case by auto
qed

lemma distinct_perplexity_env: "distinct (map fst (perplexity_env py_int py_float env))"
  by (simp add: perplexity_env_def)

lemma distinct_server_env: "distinct (map fst (server_env py_int env))"
  by (simp add: server_env_def)

lemma keys_perplexity_env:
  "fst ` set (perplexity_env py_int py_float env) = set perplexity_fields"
  by (simp add: perplexity_env_def perplexity_fields_def)

lemma keys_server_env: "fst ` set (server_env py_int env) = set server_fields"
  by (simp add: server_env_def server_fields_def)

lemma env_section_perplexity:
  "section_value (load_from_env py_int py_float env) ''perplexity'' k =
     (case map_of (perplexity_env py_int py_float env) k of
        Some v \<Rightarrow> if v \<noteq> PNone \<and> v \<noteq> PStr [] then Some v else None
      | None \<Rightarrow> None)"
  by (simp add: section_value_def load_from_env_def not_none_nor_empty_def
      map_of_filter_values [OF distinct_perplexity_env])

lemma env_section_server:
  "section_value (load_from_env py_int py_float env) ''server'' k =
     (case map_of (server_env py_int env) k of
        Some v \<Rightarrow> if v \<noteq> PNone \<and> v \<noteq> PStr [] then Some v else None
      | None \<Rightarrow> None)"
  by (simp add: section_value_def load_from_env_def not_none_nor_empty_def
      map_of_filter_values [OF distinct_server_env])

lemma env_perplexity_values:
  "section_value (load_from_env py_int py_float env) ''perplexity'' ''api_key''
     = env_str env ''PERPLEXITY_API_KEY''"
  "section_value (load_from_env py_int py_float env) ''perplexity'' ''api_url''
     = env_str env ''PERPLEXITY_API_URL''"
  "section_value (load_from_env py_int py_float env) ''perplexity'' ''model''
     = env_str env ''PERPLEXITY_MODEL''"
  "section_value (load_from_env py_int py_float env) ''perplexity'' ''model_prefix''
     = env_str env ''PERPLEXITY_MODEL_PREFIX''"
  "section_value (load_from_env py_int py_float env) ''perplexity'' ''system_message''
     = env_str env ''PERPLEXITY_SYSTEM_MESSAGE''"
  "section_value (load_from_env py_int py_float env) ''perplexity'' ''timeout''
     = env_float py_float env ''PERPLEXITY_TIMEOUT''"
  "section_value (load_from_env py_int py_float env) ''perplexity'' ''max_retries''
     = env_int py_int env ''PERPLEXITY_MAX_RETRIES''"
  "section_value (load_from_env py_int py_float env) ''perplexity'' ''retry_delay''
     = env_float py_float env ''PERPLEXITY_RETRY_DELAY''"
  unfolding env_section_perplexity
  by (simp_all add: perplexity_env_def getenv_or_def env_str_def env_int_def env_float_def
      parse_int_def parse_float_def split: option.splits)

lemma env_server_values:
  "section_value (load_from_env py_int py_float env) ''server'' ''host''
     = env_str env ''MCP_HOST''"
  "section_value (load_from_env py_int py_float env) ''server'' ''port''
     = env_int py_int env ''MCP_PORT''"
  "section_value (load_from_env py_int py_float env) ''server'' ''path''
     = env_str env ''MCP_PATH''"
  "section_value (load_from_env py_int py_float env) ''server'' ''log_level''
     = env_str env ''LOG_LEVEL''"
  "section_value (load_from_env py_int py_float env) ''server'' ''enable_cors''
     = env_bool env ''ENABLE_CORS''"
  "section_value (load_from_env py_int py_float env) ''server'' ''max_request_size''
     = env_int py_int env ''MAX_REQUEST_SIZE''"
  unfolding env_section_server
  by (simp_all add: server_env_def getenv_or_def env_str_def env_int_def env_bool_def
      parse_int_def parse_bool_def split: option.splits)

lemma plain_env:
  "plain_section (load_from_env py_int py_float env) ''perplexity''"
  "plain_section (load_from_env py_int py_float env) ''server''"
proof -
  have "''__dict__'' \<notin> fst ` set (perplexity_env py_int py_float env)"
    by (simp add: perplexity_env_def)
  then have "''__dict__'' \<notin> fst ` set (not_none_nor_empty (perplexity_env py_int py_float env))"
    by (auto simp: not_none_nor_empty_def)
  then show "plain_section (load_from_env py_int py_float env) ''perplexity''"
    by (simp add: plain_section_def load_from_env_def not_none_nor_empty_def
        distinct_map_filter distinct_perplexity_env)
  have "''__dict__'' \<notin> fst ` set (server_env py_int env)"
    by (simp add: server_env_def)
  then have "''__dict__'' \<notin> fst ` set (not_none_nor_empty (server_env py_int env))"
    by (auto simp: not_none_nor_empty_def)
  then show "plain_section (load_from_env py_int py_float env) ''server''"
    by (simp add: plain_section_def load_from_env_def not_none_nor_empty_def
        distinct_map_filter distinct_server_env)
qed

lemma env_debug:
  assumes "merge_configs fc (load_from_env py_int py_float env) = Inr c"
  shows "debug c = PBool (str_lower (getenv_or env ''DEBUG'' []) \<in> {''true'', ''1'', ''yes''})"
proof -
  from assms obtain c1 where "merge_one (load_from_env py_int py_float env) c1 = Inr c"
    by (rule merge_configs_parts)
  then obtain c2 where "merge_debug (load_from_env py_int py_float env) c2 = Inr c"
    by (auto simp: merge_one_def and_then_eq_Inr)
  then show ?thesis
    by (auto simp: merge_debug_def load_from_env_def)
qed

section \<open>What load_config returns\<close>

lemma load_config_returns_parts:
  assumes "load_config py_int py_float file env = (printed, Inr config)"
  obtains fc pr w where "load_from_file file = (pr, Inr fc)"
    and "merge_configs fc (load_from_env py_int py_float env) = Inr config"
    and "validate_config config = Inr w" and "printed = pr @ w"
  using assms
  by (auto simp: load_config_def Let_def split: prod.splits sum.splits)

lemma file_config_values:
  assumes "load_from_file file = (pr, Inr fc)"
  shows "section_value fc sec k = file_value file sec k"
  using assms
  by (cases "file") (auto simp: file_value_def section_value_def split: if_splits)

lemma file_config_plain:
  assumes "load_from_file file = (pr, Inr fc)" and "plain_file file"
  shows "plain_section fc ''perplexity'' \<and> plain_section fc ''server''"
  using assms
  by (cases "file") (auto simp: plain_file_def plain_section_def split: if_splits)

lemma load_config_proxy_default:
  assumes "load_config py_int py_float file env = (printed, Inr config)"
  shows "proxy config = default_proxy"
proof -
  from assms obtain fc where "merge_configs fc (load_from_env py_int py_float env) = Inr config"
    by (rule load_config_returns_parts)
  from merge_configs_untouched [OF this] show ?thesis by simp
qed

lemma section_ok_plain:
  assumes "section_ok d sec nf"
  shows "plain_section d sec"
proof (cases d)
  case (PDict ents)
  show ?thesis
  proof (cases "map_of ents sec")
    case None
    with PDict show ?thesis by (simp add: plain_section_def)
  next
    case (Some sct)
    with assms PDict obtain kvs where sct: "sct = PDict kvs" and d: "distinct (map fst kvs)"
      and l: "list_all (\<lambda>(key, v). key \<notin> set special_attributes
                                     \<and> (key \<in> set nf \<longrightarrow> numeric v)) kvs"
      by (cases sct) (auto simp: section_ok_def)
    from l have "''__dict__'' \<notin> fst ` set kvs"
      by (auto simp: list_all_iff special_attributes_def)
    with PDict Some sct d show ?thesis by (simp add: plain_section_def)
  qed
qed (simp_all add: plain_section_def)

lemma section_ok_numeric:
  assumes "section_ok d sec nf" and "k \<in> set nf" and "section_value d sec k = Some v"
  shows "numeric v"
proof -
  from assms(1,3) obtain ents kvs where "d = PDict ents" and "map_of ents sec = Some (PDict kvs)"
    and kv: "map_of kvs k = Some v"
    by (auto simp: section_value_def split: pyval.splits option.splits)
  with assms(1) have "list_all (\<lambda>(key, v). key \<notin> set special_attributes
                                     \<and> (key \<in> set nf \<longrightarrow> numeric v)) kvs"
    by (simp add: section_ok_def)
  moreover from kv have "(k, v) \<in> set kvs" by (rule map_of_SomeD)
  ultimately show ?thesis using assms(2) by (auto simp: list_all_iff)
qed

lemma apply_section_returns:
  assumes "accepts set_attr" and "section_ok d sec nf"
  shows "\<exists>obj'. apply_section set_attr sec d obj = Inr obj'"
proof (cases d)
  case (PDict ents)
  show ?thesis
  proof (cases "map_of ents sec")
    case None
    then have "sec \<notin> fst ` set ents" by (simp add: map_of_eq_None_iff)
    with PDict show ?thesis by (simp add: apply_section_def)
  next
    case (Some sct)
    note present = map_of_present [OF Some]
    from assms(2) PDict Some obtain kvs where sct: "sct = PDict kvs"
      and l: "list_all (\<lambda>(key, v). key \<notin> set special_attributes
                                     \<and> (key \<in> set nf \<longrightarrow> numeric v)) kvs"
      by (cases sct) (auto simp: section_ok_def)
    from l have "list_all (\<lambda>(key, v). key \<notin> set special_attributes) kvs"
      by (auto simp: list_all_iff)
    from apply_items_returns [OF assms(1) this, of obj]
    show ?thesis using PDict Some sct present by (simp add: apply_section_def)
  qed
qed (use assms(2) in \<open>simp_all add: section_ok_def apply_section_def and_then_def\<close>)

lemma merge_one_returns:
  assumes "section_ok d ''perplexity'' nf1" and "section_ok d ''server'' nf2"
    and "debug_ok d"
  shows "\<exists>c'. merge_one d c = Inr c'"
proof -
  from apply_section_returns [OF accepts_perplexity assms(1)] obtain p where
    p: "apply_section setattr_perplexity ''perplexity'' d (perplexity c) = Inr p" by blast
  from apply_section_returns [OF accepts_server assms(2)] obtain s where
    s: "apply_section setattr_server ''server'' d (server (c\<lparr>perplexity := p\<rparr>)) = Inr s" by blast
  have "\<exists>c'. merge_debug d c2 = Inr c'" for c2
  proof (cases d)
    case d: (PDict ents)
    show ?thesis
    proof (cases "map_of ents ''debug''")
      case None
      then have "''debug'' \<notin> fst ` set ents" by (simp add: map_of_eq_None_iff)
      with d show ?thesis by (simp add: merge_debug_def)
    next
      case (Some v)
      from map_of_present [OF Some] Some d show ?thesis by (simp add: merge_debug_def)
    qed
  qed (use assms(3) in \<open>simp_all add: debug_ok_def merge_debug_def and_then_def\<close>)
  then obtain c' where "merge_debug d (c\<lparr>perplexity := p, server := s\<rparr>) = Inr c'" by blast
  with p s show ?thesis
    by (simp add: merge_one_def merge_perplexity_def merge_server_def)
qed

lemma section_ok_items:
  assumes "distinct (map fst kvs)" and "fst ` set kvs \<subseteq> set names"
    and "set names \<inter> set special_attributes = {}" and "map_of ents sec = Some (PDict kvs)"
  shows "section_ok (PDict ents) sec []"
proof -
  from assms(2,3) have "list_all (\<lambda>(key, v). key \<notin> set special_attributes
                                     \<and> (key \<in> set [] \<longrightarrow> numeric v)) kvs"
    by (fastforce simp: list_all_iff)
  with assms(1,4) show ?thesis by (simp add: section_ok_def)
qed

lemma section_ok_env:
  "section_ok (load_from_env py_int py_float env) ''perplexity'' []"
  "section_ok (load_from_env py_int py_float env) ''server'' []"
proof -
  let ?p = "not_none_nor_empty (perplexity_env py_int py_float env)"
  let ?s = "not_none_nor_empty (server_env py_int env)"
  have "distinct (map fst ?p)"
    unfolding not_none_nor_empty_def by (rule distinct_map_filter) (rule distinct_perplexity_env)
  moreover have "fst ` set ?p \<subseteq> set perplexity_fields"
    using keys_perplexity_env [of py_int py_float env] by (auto simp: not_none_nor_empty_def)
  moreover have "set perplexity_fields \<inter> set special_attributes = {}"
    by (simp add: perplexity_fields_def special_attributes_def)
  ultimately show "section_ok (load_from_env py_int py_float env) ''perplexity'' []"
    unfolding load_from_env_def by (rule section_ok_items) simp
  have "distinct (map fst ?s)"
    unfolding not_none_nor_empty_def by (rule distinct_map_filter) (rule distinct_server_env)
  moreover have "fst ` set ?s \<subseteq> set server_fields"
    using keys_server_env [of py_int env] by (auto simp: not_none_nor_empty_def)
  moreover have "set server_fields \<inter> set special_attributes = {}"
    by (simp add: server_fields_def special_attributes_def)
  ultimately show "section_ok (load_from_env py_int py_float env) ''server'' []"
    unfolding load_from_env_def by (rule section_ok_items) simp
qed

lemma debug_ok_env: "debug_ok (load_from_env py_int py_float env)"
  by (simp add: debug_ok_def load_from_env_def)

lemma numeric_comparisons:
  assumes "numeric v"
  shows "\<exists>b. py_le v n = Inr b" and "\<exists>b. py_lt v n = Inr b" and "\<exists>b. py_ge v n = Inr b"
proof -
  show "\<exists>b. py_le v n = Inr b"
  proof (cases v)
    case (PFloat f)
    then show ?thesis by (cases f) auto
  qed (use assms in simp_all)
  show "\<exists>b. py_lt v n = Inr b"
  proof (cases v)
    case (PFloat f)
    then show ?thesis by (cases f) auto
  qed (use assms in simp_all)
  show "\<exists>b. py_ge v n = Inr b"
  proof (cases v)
    case (PFloat f)
    then show ?thesis by (cases f) auto
  qed (use assms in simp_all)
qed

lemma validate_config_returns:
  assumes "numeric (timeout (perplexity c))" and "numeric (max_retries (perplexity c))"
    and "numeric (port (server c))" and "numeric (max_request_size (server c))"
  shows "\<exists>w. validate_config c = Inr w"
proof -
  from numeric_comparisons(1) [OF assms(1)] obtain b1 where
    b1: "py_le (timeout (perplexity c)) 0 = Inr b1" by blast
  from numeric_comparisons(2) [OF assms(2)] obtain b2 where
    b2: "py_lt (max_retries (perplexity c)) 0 = Inr b2" by blast
  from numeric_comparisons(3) [OF assms(3)] obtain b3 where
    b3: "py_ge (port (server c)) 1 = Inr b3" by blast
  from numeric_comparisons(1) [OF assms(3)] obtain b4 where
    b4: "py_le (port (server c)) 65535 = Inr b4" by blast
  from numeric_comparisons(1) [OF assms(4)] obtain b5 where
    b5: "py_le (max_request_size (server c)) 0 = Inr b5" by blast
  show ?thesis
    by (simp add: validate_config_def Let_def b1 b2 b3 b4 b5)
qed

lemma numeric_by_precedence:
  assumes "\<And>v. from_env = Some v \<Longrightarrow> numeric v" and "\<And>v. from_file = Some v \<Longrightarrow> numeric v"
    and "numeric dflt"
  shows "numeric (by_precedence from_env from_file dflt)"
  using assms by (simp add: by_precedence_def split: option.splits)

lemma numeric_env_int: "env_int py_int env name = Some v \<Longrightarrow> numeric v"
  by (auto simp: env_int_def split: option.splits if_splits)

lemma numeric_env_float: "env_float py_float env name = Some v \<Longrightarrow> numeric v"
  by (auto simp: env_float_def split: option.splits if_splits)

lemma well_shaped_file_config:
  assumes "well_shaped file"
  obtains pr fc where "load_from_file file = (pr, Inr fc)"
    and "section_ok fc ''perplexity'' [''timeout'', ''max_retries'']"
    and "section_ok fc ''server'' [''port'', ''max_request_size'']"
    and "debug_ok fc"
  using assms by (cases "file") (auto simp: section_ok_def debug_ok_def)

lemma load_config_total:
  assumes "well_shaped file"
  shows "\<exists>printed config. load_config py_int py_float file env = (printed, Inr config)"
proof -
  let ?ec = "load_from_env py_int py_float env"
  from assms obtain pr fc where fc: "load_from_file file = (pr, Inr fc)"
    and okp: "section_ok fc ''perplexity'' [''timeout'', ''max_retries'']"
    and oks: "section_ok fc ''server'' [''port'', ''max_request_size'']"
    and okd: "debug_ok fc"
    by (rule well_shaped_file_config)
  from merge_one_returns [OF okp oks okd] obtain c1 where
    c1: "merge_one fc default_config = Inr c1" by blast
  from merge_one_returns [OF section_ok_env debug_ok_env] obtain c where
    c: "merge_one ?ec c1 = Inr c" by blast
  from c1 c have m: "merge_configs fc ?ec = Inr c" by (simp add: merge_configs_def)
  note P = merge_configs_perplexity [OF _ m section_ok_plain [OF okp] plain_env(1)]
  note S = merge_configs_server [OF _ m section_ok_plain [OF oks] plain_env(2)]
  have n1: "numeric (timeout (perplexity c))"
    unfolding P [OF stores_perplexity(6)] env_perplexity_values
    by (rule numeric_by_precedence)
      (auto intro: numeric_env_float section_ok_numeric [OF okp] simp: default_perplexity_def)
  have n2: "numeric (max_retries (perplexity c))"
    unfolding P [OF stores_perplexity(7)] env_perplexity_values
    by (rule numeric_by_precedence)
      (auto intro: numeric_env_int section_ok_numeric [OF okp] simp: default_perplexity_def)
  have n3: "numeric (port (server c))"
    unfolding S [OF stores_server(2)] env_server_values
    by (rule numeric_by_precedence)
      (auto intro: numeric_env_int section_ok_numeric [OF oks] simp: default_server_def)
  have n4: "numeric (max_request_size (server c))"
    unfolding S [OF stores_server(6)] env_server_values
    by (rule numeric_by_precedence)
      (auto intro: numeric_env_int section_ok_numeric [OF oks] simp: default_server_def)
  from validate_config_returns [OF n1 n2 n3 n4] obtain w where "validate_config c = Inr w"
    by blast
  with fc m show ?thesis by (simp add: load_config_def)
qed


lemma getenv_or_other:
  "x \<noteq> n \<Longrightarrow> getenv_or (env(n := v)) x d = getenv_or env x d"
  by (simp add: getenv_or_def)

lemma getenv_either_other:
  "u \<noteq> n \<Longrightarrow> l \<noteq> n \<Longrightarrow> getenv_either (env(n := v)) u l = getenv_either env u l"
  by (simp add: getenv_either_def getenv_or_def split: option.splits)

lemma load_config_env_cong:
  assumes "load_from_env py_int py_float env1 = load_from_env py_int py_float env2"
  shows "load_config py_int py_float file env1 = load_config py_int py_float file env2"
  unfolding load_config_def assms by (rule refl)

lemma load_from_env_unparsable:
  "py_int s = None \<Longrightarrow>
     load_from_env py_int py_float (env(''PERPLEXITY_MAX_RETRIES'' \<mapsto> s))
       = load_from_env py_int py_float (env(''PERPLEXITY_MAX_RETRIES'' := None))"
  "py_int s = None \<Longrightarrow>
     load_from_env py_int py_float (env(''MCP_PORT'' \<mapsto> s))
       = load_from_env py_int py_float (env(''MCP_PORT'' := None))"
  "py_int s = None \<Longrightarrow>
     load_from_env py_int py_float (env(''MAX_REQUEST_SIZE'' \<mapsto> s))
       = load_from_env py_int py_float (env(''MAX_REQUEST_SIZE'' := None))"
  "py_float s = None \<Longrightarrow>
     load_from_env py_int py_float (env(''PERPLEXITY_TIMEOUT'' \<mapsto> s))
       = load_from_env py_int py_float (env(''PERPLEXITY_TIMEOUT'' := None))"
  "py_float s = None \<Longrightarrow>
     load_from_env py_int py_float (env(''PERPLEXITY_RETRY_DELAY'' \<mapsto> s))
       = load_from_env py_int py_float (env(''PERPLEXITY_RETRY_DELAY'' := None))"
  by (simp_all add: load_from_env_def perplexity_env_def server_env_def proxy_env_def
      getenv_or_other getenv_either_other parse_int_def parse_float_def)


section \<open>Precedence of environment, file and defaults\<close>

text \<open>
  C1 (as amended). Whenever \<^verbatim>\<open>load_config\<close> returns a configuration for a plain file,
  every field of \<^verbatim>\<open>PerplexitySettings\<close> and of \<^verbatim>\<open>ServerSettings\<close> is resolved on its
  own: it is the value of its environment variable when that is set, not empty and,
  for a number, parses; otherwise the file's value when the file's section has the
  key; otherwise the default. \<^verbatim>\<open>config_version\<close> is always the default \<^verbatim>\<open>"1.0"\<close>,
  and when \<^verbatim>\<open>DEBUG\<close> is set and not empty, \<^verbatim>\<open>debug\<close> tells whether its lower-cased
  value is \<^verbatim>\<open>true\<close>, \<^verbatim>\<open>1\<close> or \<^verbatim>\<open>yes\<close>. Nothing is said of \<^verbatim>\<open>ProxySettings\<close>, nor of
  \<^verbatim>\<open>debug\<close> when \<^verbatim>\<open>DEBUG\<close> is unset.
\<close>

theorem load_config_precedence:
  assumes "load_config py_int py_float file env = (printed, Inr config)"
    and "plain_file file"
  shows
    "api_key (perplexity config) =
       by_precedence (env_str env ''PERPLEXITY_API_KEY'')
         (file_value file ''perplexity'' ''api_key'') (PStr '''')
     \<and> api_url (perplexity config) =
       by_precedence (env_str env ''PERPLEXITY_API_URL'')
         (file_value file ''perplexity'' ''api_url'')
         (PStr ''https://api.perplexity.ai/chat/completions'')
     \<and> model (perplexity config) =
       by_precedence (env_str env ''PERPLEXITY_MODEL'')
         (file_value file ''perplexity'' ''model'') (PStr ''sonar'')
     \<and> model_prefix (perplexity config) =
       by_precedence (env_str env ''PERPLEXITY_MODEL_PREFIX'')
         (file_value file ''perplexity'' ''model_prefix'') (PStr '''')
     \<and> system_message (perplexity config) =
       by_precedence (env_str env ''PERPLEXITY_SYSTEM_MESSAGE'')
         (file_value file ''perplexity'' ''system_message'') (PStr ''Be precise and concise.'')
     \<and> timeout (perplexity config) =
       by_precedence (env_float py_float env ''PERPLEXITY_TIMEOUT'')
         (file_value file ''perplexity'' ''timeout'') (PFloat (Finite 30))
     \<and> max_retries (perplexity config) =
       by_precedence (env_int py_int env ''PERPLEXITY_MAX_RETRIES'')
         (file_value file ''perplexity'' ''max_retries'') (PInt 3)
     \<and> retry_delay (perplexity config) =
       by_precedence (env_float py_float env ''PERPLEXITY_RETRY_DELAY'')
         (file_value file ''perplexity'' ''retry_delay'') (PFloat (Finite 1))
     \<and> host (server config) =
       by_precedence (env_str env ''MCP_HOST'')
         (file_value file ''server'' ''host'') (PStr ''127.0.0.1'')
     \<and> port (server config) =
       by_precedence (env_int py_int env ''MCP_PORT'')
         (file_value file ''server'' ''port'') (PInt 8000)
     \<and> path (server config) =
       by_precedence (env_str env ''MCP_PATH'')
         (file_value file ''server'' ''path'') (PStr ''/mcp'')
     \<and> log_level (server config) =
       by_precedence (env_str env ''LOG_LEVEL'')
         (file_value file ''server'' ''log_level'') (PStr ''info'')
     \<and> enable_cors (server config) =
       by_precedence (env_bool env ''ENABLE_CORS'')
         (file_value file ''server'' ''enable_cors'') (PBool True)
     \<and> max_request_size (server config) =
       by_precedence (env_int py_int env ''MAX_REQUEST_SIZE'')
         (file_value file ''server'' ''max_request_size'') (PInt 1048576)
     \<and> config_version config = ''1.0''
     \<and> (\<forall>s. env ''DEBUG'' = Some s \<and> s \<noteq> [] \<longrightarrow>
            debug config = PBool (str_lower s \<in> {''true'', ''1'', ''yes''}))"
proof -
  from assms(1) obtain fc pr w where
    fc: "load_from_file file = (pr, Inr fc)"
    and m: "merge_configs fc (load_from_env py_int py_float env) = Inr config"
    by (rule load_config_returns_parts)
  note pf = file_config_plain [OF fc assms(2)]
  note fv = file_config_values [OF fc]
  note P = merge_configs_perplexity [OF _ m conjunct1 [OF pf] plain_env(1)]
  note S = merge_configs_server [OF _ m conjunct2 [OF pf] plain_env(2)]
  have api_key: "api_key (perplexity config) =
      by_precedence (env_str env ''PERPLEXITY_API_KEY'') (file_value file ''perplexity'' ''api_key'') (PStr '''')"
    using P [OF stores_perplexity(1)]
    by (simp add: default_perplexity_def env_perplexity_values fv)
  have api_url: "api_url (perplexity config) =
      by_precedence (env_str env ''PERPLEXITY_API_URL'') (file_value file ''perplexity'' ''api_url'') (PStr ''https://api.perplexity.ai/chat/completions'')"
    using P [OF stores_perplexity(2)]
    by (simp add: default_perplexity_def env_perplexity_values fv)
  have model: "model (perplexity config) =
      by_precedence (env_str env ''PERPLEXITY_MODEL'') (file_value file ''perplexity'' ''model'') (PStr ''sonar'')"
    using P [OF stores_perplexity(3)]
    by (simp add: default_perplexity_def env_perplexity_values fv)
  have model_prefix: "model_prefix (perplexity config) =
      by_precedence (env_str env ''PERPLEXITY_MODEL_PREFIX'') (file_value file ''perplexity'' ''model_prefix'') (PStr '''')"
    using P [OF stores_perplexity(4)]
    by (simp add: default_perplexity_def env_perplexity_values fv)
  have system_message: "system_message (perplexity config) =
      by_precedence (env_str env ''PERPLEXITY_SYSTEM_MESSAGE'') (file_value file ''perplexity'' ''system_message'') (PStr ''Be precise and concise.'')"
    using P [OF stores_perplexity(5)]
    by (simp add: default_perplexity_def env_perplexity_values fv)
  have timeout: "timeout (perplexity config) =
      by_precedence (env_float py_float env ''PERPLEXITY_TIMEOUT'') (file_value file ''perplexity'' ''timeout'') (PFloat (Finite 30))"
    using P [OF stores_perplexity(6)]
    by (simp add: default_perplexity_def env_perplexity_values fv)
  have max_retries: "max_retries (perplexity config) =
      by_precedence (env_int py_int env ''PERPLEXITY_MAX_RETRIES'') (file_value file ''perplexity'' ''max_retries'') (PInt 3)"
    using P [OF stores_perplexity(7)]
    by (simp add: default_perplexity_def env_perplexity_values fv)
  have retry_delay: "retry_delay (perplexity config) =
      by_precedence (env_float py_float env ''PERPLEXITY_RETRY_DELAY'') (file_value file ''perplexity'' ''retry_delay'') (PFloat (Finite 1))"
    using P [OF stores_perplexity(8)]
    by (simp add: default_perplexity_def env_perplexity_values fv)
  have host: "host (server config) =
      by_precedence (env_str env ''MCP_HOST'') (file_value file ''server'' ''host'') (PStr ''127.0.0.1'')"
    using S [OF stores_server(1)]
    by (simp add: default_server_def env_server_values fv)
  have port: "port (server config) =
      by_precedence (env_int py_int env ''MCP_PORT'') (file_value file ''server'' ''port'') (PInt 8000)"
    using S [OF stores_server(2)]
    by (simp add: default_server_def env_server_values fv)
  have path: "path (server config) =
      by_precedence (env_str env ''MCP_PATH'') (file_value file ''server'' ''path'') (PStr ''/mcp'')"
    using S [OF stores_server(3)]
    by (simp add: default_server_def env_server_values fv)
  have log_level: "log_level (server config) =
      by_precedence (env_str env ''LOG_LEVEL'') (file_value file ''server'' ''log_level'') (PStr ''info'')"
    using S [OF stores_server(4)]
    by (simp add: default_server_def env_server_values fv)
  have enable_cors: "enable_cors (server config) =
      by_precedence (env_bool env ''ENABLE_CORS'') (file_value file ''server'' ''enable_cors'') (PBool True)"
    using S [OF stores_server(5)]
    by (simp add: default_server_def env_server_values fv)
  have max_request_size: "max_request_size (server config) =
      by_precedence (env_int py_int env ''MAX_REQUEST_SIZE'') (file_value file ''server'' ''max_request_size'') (PInt 1048576)"
    using S [OF stores_server(6)]
    by (simp add: default_server_def env_server_values fv)
  have version: "config_version config = ''1.0''"
    using merge_configs_untouched [OF m] by simp
  have flag: "\<forall>s. env ''DEBUG'' = Some s \<and> s \<noteq> [] \<longrightarrow>
      debug config = PBool (str_lower s \<in> {''true'', ''1'', ''yes''})"
    using env_debug [OF m] by (simp add: getenv_or_def)
  note all = api_key api_url model model_prefix system_message timeout max_retries retry_delay host port path log_level enable_cors max_request_size version flag
  show ?thesis
    by (intro conjI) (rule all)+
qed

text \<open>
  The theorem at \<^verbatim>\<open>example_file\<close> and \<^verbatim>\<open>example_env\<close>: the key comes from the file,
  the model from the environment over the file, the port from the environment, the
  host from the defaults.
\<close>

theorem load_config_precedence_witness:
  "load_config plain_int plain_float example_file example_env = ([], Inr example_config)
   \<and> plain_file example_file
   \<and> api_key (perplexity example_config) = PStr ''file-key''
   \<and> model (perplexity example_config) = PStr ''sonar-reasoning''
   \<and> timeout (perplexity example_config) = PInt 10
   \<and> retry_delay (perplexity example_config) = PFloat (Finite 1)
   \<and> port (server example_config) = PInt 8080
   \<and> host (server example_config) = PStr ''127.0.0.1''
   \<and> config_version example_config = ''1.0''
   \<and> debug example_config = PBool True"
proof -
  have returned: "load_config plain_int plain_float example_file example_env
                  = ([], Inr example_config)"
    by code_simp
  have plain: "plain_file example_file"
    by code_simp
  have "env_str example_env ''PERPLEXITY_API_KEY'' = None"
    and "file_value example_file ''perplexity'' ''api_key'' = Some (PStr ''file-key'')"
    and "env_str example_env ''PERPLEXITY_MODEL'' = Some (PStr ''sonar-reasoning'')"
    and "file_value example_file ''perplexity'' ''timeout'' = Some (PInt 10)"
    and "env_float plain_float example_env ''PERPLEXITY_TIMEOUT'' = None"
    and "env_float plain_float example_env ''PERPLEXITY_RETRY_DELAY'' = None"
    and "file_value example_file ''perplexity'' ''retry_delay'' = None"
    and "env_int plain_int example_env ''MCP_PORT'' = Some (PInt 8080)"
    and "env_str example_env ''MCP_HOST'' = None"
    and "file_value example_file ''server'' ''host'' = None"
    and "example_env ''DEBUG'' = Some ''Yes''"
    and "str_lower ''Yes'' = ''yes''"
    by code_simp+
  with load_config_precedence [OF returned plain] returned plain show ?thesis
    by (simp add: by_precedence_def)
qed

text \<open>
  The claim as first stated fails for \<^verbatim>\<open>config_version\<close>: a file that sets it to
  \<^verbatim>\<open>"2.0"\<close>, with an empty environment, still yields the default \<^verbatim>\<open>"1.0"\<close>.
\<close>

theorem load_config_precedence_counterexample:
  "snd (load_config plain_int plain_float
          (Json (PDict [(''config_version'', PStr ''2.0'')])) Map.empty) = Inr default_config
   \<and> config_version default_config = ''1.0''"
  by code_simp

text \<open>
  C2. With \<^verbatim>\<open>HTTP_PROXY\<close> set, \<^verbatim>\<open>_load_from_env\<close> does put the URL under
  \<^verbatim>\<open>"proxy"\<close>, but the configuration \<^verbatim>\<open>load_config\<close> returns has an empty
  \<^verbatim>\<open>http_proxy\<close>: the claimed override does not happen.
\<close>

theorem load_config_drops_proxy_env:
  "section_value
     (load_from_env plain_int plain_float
        [''PERPLEXITY_API_KEY'' \<mapsto> ''k'', ''HTTP_PROXY'' \<mapsto> ''http://proxy.example.com:8080''])
     ''proxy'' ''http_proxy'' = Some (PStr ''http://proxy.example.com:8080'')
   \<and> load_config plain_int plain_float Missing
        [''PERPLEXITY_API_KEY'' \<mapsto> ''k'', ''HTTP_PROXY'' \<mapsto> ''http://proxy.example.com:8080'']
      = ([], Inr (default_config\<lparr>perplexity := default_perplexity\<lparr>api_key := PStr ''k''\<rparr>\<rparr>))
   \<and> http_proxy
        (proxy (default_config\<lparr>perplexity := default_perplexity\<lparr>api_key := PStr ''k''\<rparr>\<rparr>)) = []"
  by code_simp

section \<open>Which files load_config accepts\<close>




section \<open>Numbers that do not parse\<close>

text \<open>
  C10. A numeric variable set to a string that does not parse gives its field no
  value, and \<^verbatim>\<open>load_config\<close> prints and returns (or raises) exactly what it does
  with the variable unset, so nothing tells the two apart; with a well-shaped file
  it returns a configuration.
\<close>

theorem unparsable_number_as_absent:
  "(py_int s = None \<and> name \<in> {''PERPLEXITY_MAX_RETRIES'', ''MCP_PORT'', ''MAX_REQUEST_SIZE''}
      \<longrightarrow> load_config py_int py_float file (env(name \<mapsto> s))
             = load_config py_int py_float file (env(name := None))
          \<and> env_int py_int (env(name \<mapsto> s)) name = None)
   \<and> (py_float s = None \<and> name \<in> {''PERPLEXITY_TIMEOUT'', ''PERPLEXITY_RETRY_DELAY''}
      \<longrightarrow> load_config py_int py_float file (env(name \<mapsto> s))
             = load_config py_int py_float file (env(name := None))
          \<and> env_float py_float (env(name \<mapsto> s)) name = None)
   \<and> (well_shaped file
      \<longrightarrow> (\<exists>printed config.
             load_config py_int py_float file (env(name \<mapsto> s)) = (printed, Inr config)))"
proof (intro conjI impI)
  assume a: "py_int s = None \<and> name \<in> {''PERPLEXITY_MAX_RETRIES'', ''MCP_PORT'', ''MAX_REQUEST_SIZE''}"
  then have "load_from_env py_int py_float (env(name \<mapsto> s))
             = load_from_env py_int py_float (env(name := None))"
    using load_from_env_unparsable(1-3) [of py_int s py_float env] by blast
  then show "load_config py_int py_float file (env(name \<mapsto> s))
             = load_config py_int py_float file (env(name := None))"
    by (rule load_config_env_cong)
  from a show "env_int py_int (env(name \<mapsto> s)) name = None"
    by (simp add: env_int_def)
next
  assume a: "py_float s = None \<and> name \<in> {''PERPLEXITY_TIMEOUT'', ''PERPLEXITY_RETRY_DELAY''}"
  then have "load_from_env py_int py_float (env(name \<mapsto> s))
             = load_from_env py_int py_float (env(name := None))"
    using load_from_env_unparsable(4-5) [of py_float s py_int env] by blast
  then show "load_config py_int py_float file (env(name \<mapsto> s))
             = load_config py_int py_float file (env(name := None))"
    by (rule load_config_env_cong)
  from a show "env_float py_float (env(name \<mapsto> s)) name = None"
    by (simp add: env_float_def)
next
  assume "well_shaped file"
  then show "\<exists>printed config.
      load_config py_int py_float file (env(name \<mapsto> s)) = (printed, Inr config)"
    by (rule load_config_total)
qed

text \<open>The theorem at \<^verbatim>\<open>MCP_PORT=80a\<close> and \<^verbatim>\<open>PERPLEXITY_TIMEOUT=soon\<close>: the port stays the file's.\<close>

theorem unparsable_number_as_absent_witness:
  "plain_int ''80a'' = None
   \<and> load_config plain_int plain_float example_file (example_env(''MCP_PORT'' \<mapsto> ''80a''))
     = load_config plain_int plain_float example_file (example_env(''MCP_PORT'' := None))
   \<and> plain_float ''soon'' = None
   \<and> load_config plain_int plain_float example_file
        (example_env(''PERPLEXITY_TIMEOUT'' \<mapsto> ''soon''))
     = load_config plain_int plain_float example_file
        (example_env(''PERPLEXITY_TIMEOUT'' := None))
   \<and> well_shaped example_file
   \<and> snd (load_config plain_int plain_float example_file (example_env(''MCP_PORT'' \<mapsto> ''80a'')))
     = Inr (example_config\<lparr>server := default_server\<lparr>port := PInt 9000\<rparr>\<rparr>)"
proof -
  have a: "plain_int ''80a'' = None" by code_simp
  have b: "plain_float ''soon'' = None" by code_simp
  have c: "well_shaped example_file" by code_simp
  have d: "snd (load_config plain_int plain_float example_file
                  (example_env(''MCP_PORT'' \<mapsto> ''80a'')))
           = Inr (example_config\<lparr>server := default_server\<lparr>port := PInt 9000\<rparr>\<rparr>)"
    by code_simp
  from unparsable_number_as_absent
         [of plain_int "''80a''" "''MCP_PORT''" plain_float example_file example_env]
       unparsable_number_as_absent
         [of plain_int "''soon''" "''PERPLEXITY_TIMEOUT''" plain_float example_file example_env]
       a b c d
  show ?thesis by simp
qed

section \<open>What save_config writes\<close>













section \<open>The structure of a call\<close>

lemma startswith_append: "startswith (p @ m) p"
  by (induction p) simp_all

lemma apply_model_prefix_strings:
  "apply_model_prefix (PStr p) (PStr m)
     = Inr (PStr (if p \<noteq> [] \<and> \<not> startswith m p then p @ m else m))"
  by (simp add: apply_model_prefix_def)

lemma ctx_log_Ctx: "e \<in> set (ctx_log ctx lvl msg) \<Longrightarrow> \<exists>l m. e = Ctx l m"
  by (auto simp: ctx_log_def split: if_splits)

lemma process_response_events:
  "e \<in> set (fst (process_response py_str ctx d)) \<Longrightarrow> \<exists>l m. e = Ctx l m"
  by (auto simp: process_response_def dest!: ctx_log_Ctx
      split: sum.splits if_splits)

lemma create_http_client_events:
  "e \<in> set (fst (create_http_client urlparse lib config))
     \<Longrightarrow> (\<exists>m. e = Print m) \<or> (\<exists>cc. e = ClientCreated cc)"
  by (auto simp: create_http_client_def Let_def split: option.splits if_splits)

lemma handle_exception_events:
  "e \<in> set (fst (handle_exception config ctx x)) \<Longrightarrow> \<exists>l m. e = Ctx l m"
  by (auto simp: handle_exception_def dest!: ctx_log_Ctx
      split: httpx_exception.splits py_exception.splits if_splits)

lemma handle_exception_raises:
  "snd (handle_exception config ctx x)
     = (case x of TimeoutException \<Rightarrow> TimeoutError | ProxyError t \<Rightarrow> ConnectionError
        | Other y \<Rightarrow> y)"
  by (simp add: handle_exception_def split: httpx_exception.splits py_exception.splits)

lemma call_api_outcome:
  "snd (call_api urlparse lib py_str config ctx req)
     = (case snd (create_http_client urlparse lib config) of
          Inl e \<Rightarrow> Inl (Other e)
        | Inr client \<Rightarrow>
            (case post lib client req of
               PostRaises e \<Rightarrow> Inl e
             | Reply status text body \<Rightarrow>
                 if status \<noteq> 200 then Inl (Other (HTTPStatusError status text))
                 else (case body of
                         Inl e \<Rightarrow> Inl (Other e)
                       | Inr d \<Rightarrow>
                           (case snd (process_response py_str ctx d) of
                              Inl e \<Rightarrow> Inl (Other e)
                            | Inr result \<Rightarrow> Inr result))))"
  by (simp add: call_api_def Let_def split: prod.splits sum.splits http_reply.splits)

lemma call_api_posts:
  assumes "PostSent cc r \<in> set (fst (call_api urlparse lib py_str config ctx req))"
  shows "r = req \<and> snd (create_http_client urlparse lib config) = Inr cc"
proof -
  obtain printed res where c: "create_http_client urlparse lib config = (printed, res)"
    by (cases "create_http_client urlparse lib config")
  have np: "PostSent cc r \<notin> set printed"
    using create_http_client_events [of "PostSent cc r" urlparse lib config] c by auto
  have nl: "PostSent cc r \<notin> set (ctx_log ctx l m)" for l m
    using ctx_log_Ctx [of "PostSent cc r" ctx l m] by auto
  have nr: "PostSent cc r \<notin> set evs" if "process_response py_str ctx d = (evs, x)" for d evs x
    using process_response_events [of "PostSent cc r" py_str ctx d] that by auto
  show ?thesis
  proof (cases res)
    case (Inl e)
    with assms c np nl show ?thesis by (simp add: call_api_def)
  next
    case (Inr client)
    with assms c np nl nr show ?thesis
      by (auto simp: call_api_def Let_def split: http_reply.splits if_splits sum.splits
          prod.splits)
  qed
qed

lemma search_outcome:
  "snd (search urlparse lib py_str config ctx keyword model_arg system_message_arg)
     = (if \<not> truthy (api_key (perplexity config)) then Inl MissingApiKeyValueError
        else (case resolve_model config model_arg of
                Inl e \<Rightarrow> Inl e
              | Inr used_model \<Rightarrow>
                  (case snd (call_api urlparse lib py_str config ctx
                         \<lparr>request_url = api_url (perplexity config),
                          bearer = api_key (perplexity config),
                          request_model = used_model,
                          system_content =
                            str_or system_message_arg (system_message (perplexity config)),
                          user_content = keyword\<rparr>) of
                     Inr result \<Rightarrow> Inr result
                   | Inl e \<Rightarrow> Inl (snd (handle_exception config ctx e)))))"
  by (simp add: search_def Let_def split: prod.splits sum.splits)

lemma search_posts:
  assumes "PostSent cc r \<in> set (fst (search urlparse lib py_str config ctx keyword model_arg
                                      system_message_arg))"
  shows "resolve_model config model_arg = Inr (request_model r)
         \<and> snd (create_http_client urlparse lib config) = Inr cc"
proof -
  have nl: "PostSent cc r \<notin> set (ctx_log ctx l m)" for l m
    using ctx_log_Ctx [of "PostSent cc r" ctx l m] by auto
  have nh: "PostSent cc r \<notin> set told" if "handle_exception config ctx x = (told, y)" for x told y
    using handle_exception_events [of "PostSent cc r" config ctx x] that by auto
  from assms nl obtain used_model where um: "resolve_model config model_arg = Inr used_model"
    and "PostSent cc r \<in> set (fst (call_api urlparse lib py_str config ctx
                         \<lparr>request_url = api_url (perplexity config),
                          bearer = api_key (perplexity config),
                          request_model = used_model,
                          system_content =
                            str_or system_message_arg (system_message (perplexity config)),
                          user_content = keyword\<rparr>))"
    using nh
    by (auto simp: search_def Let_def split: if_splits sum.splits prod.splits)
  from call_api_posts [OF this(2)] um show ?thesis by simp
qed

lemma get_httpx_proxy_default: "get_httpx_proxy default_proxy = None"
  by (simp add: get_httpx_proxy_def get_proxy_config_def default_proxy_def)

lemma startswith_take: "startswith s p \<longleftrightarrow> take (length p) s = p"
  by (induction s p rule: startswith.induct) auto

lemma key_present: "key \<in> fst ` set kvs \<longleftrightarrow> map_of kvs key \<noteq> None"
  by (simp add: map_of_eq_None_iff)

lemma choice_content_well_formed:
  assumes "well_formed_choice c"
  shows "choice_content c = Inr (case choice_text c of Some s \<Rightarrow> [PStr s] | None \<Rightarrow> [])"
proof (cases c)
  case c: (PDict kvs)
  show ?thesis
  proof (cases "map_of kvs ''message''")
    case None
    with c show ?thesis by (simp add: choice_content_def key_present)
  next
    case msg: (Some msg)
    show ?thesis
    proof (cases msg)
      case m: (PDict m)
      show ?thesis
      proof (cases "map_of m ''content''")
        case None
        with c msg m show ?thesis by (simp add: choice_content_def key_present)
      next
        case (Some content)
        with assms c msg m obtain s where "content = PStr s"
          by (cases content) simp_all
        with c Some msg m show ?thesis
          by (simp add: choice_content_def key_present)
      qed
    qed (use assms c msg in \<open>simp_all add: choice_content_def key_present\<close>)
  qed
qed (use assms in \<open>simp_all add: choice_content_def\<close>)

lemma choice_content_ill_formed:
  assumes "\<not> well_formed_choice c"
  shows "choice_content c = Inl TypeError
         \<or> (\<exists>v. choice_content c = Inr [v] \<and> (\<forall>s. v \<noteq> PStr s))"
proof (cases c)
  case c: (PDict kvs)
  show ?thesis
  proof (cases "map_of kvs ''message''")
    case None
    with assms c show ?thesis by simp
  next
    case msg: (Some msg)
    show ?thesis
    proof (cases msg)
      case m: (PDict m)
      show ?thesis
      proof (cases "map_of m ''content''")
        case None
        with assms c msg m show ?thesis by simp
      next
        case (Some content)
        with assms c msg m have "\<forall>s. content \<noteq> PStr s"
          by (cases content) simp_all
        with c Some msg m show ?thesis
          by (simp add: choice_content_def key_present)
      qed
    qed (use assms c msg in \<open>simp_all add: choice_content_def key_present\<close>)
  qed
qed (use assms in \<open>simp_all add: choice_content_def\<close>)

lemma content_parts_well_formed:
  "list_all well_formed_choice cs \<Longrightarrow>
   content_parts cs = Inr (map PStr (List.map_filter choice_text cs))"
  by (induction cs)
    (auto simp: choice_content_well_formed List.map_filter_simps split: option.splits)

lemma all_strings_map: "all_strings (map PStr ss) = Inr ss"
  by (induction ss) simp_all

lemma citation_lines_eq:
  "citation_lines py_str n cs =
     concat (map (\<lambda>(i, c). ''['' @ str_of_nat i @ ''] '' @ c @ [newline])
               (zip [n ..< n + length cs] (map (py_format py_str) cs)))"
proof (induction cs arbitrary: n)
  case Nil
  then show ?case by simp
next
  case (Cons c cs)
  have "n < n + length (c # cs)" by simp
  from upt_conv_Cons [OF this]
  have "[n ..< n + length (c # cs)] = n # [Suc n ..< Suc n + length cs]" by simp
  with Cons.IH [of "Suc n"] show ?case by simp
qed

lemma citation_lines_block:
  "citations_header @ citation_lines py_str 1 cs = citation_block (map (py_format py_str) cs)"
  by (simp add: citation_block_def citation_lines_eq)

lemma process_response_well_formed:
  assumes "map_of r ''choices'' = Some (PList choices)" and "choices \<noteq> []"
    and "list_all well_formed_choice choices"
    and "attr_or r ''citations'' (PList []) = PList citations"
  shows "snd (process_response py_str ctx (PDict r))
           = Inr (str_join '' '' (List.map_filter choice_text choices)
                  @ (if citations = [] then []
                     else citation_block (map (py_format py_str) citations)))"
proof -
  from assms(1) have present: "''choices'' \<in> fst ` set r" by (simp add: key_present)
  from assms(1) have got: "attr_or r ''choices'' (PList []) = PList choices"
    by (simp add: attr_or_def)
  have joined: "and_then (content_parts choices) (py_join '' '')
                = Inr (str_join '' '' (List.map_filter choice_text choices))"
    by (simp add: content_parts_well_formed [OF assms(3)] py_join_def all_strings_map)
  show ?thesis
    using assms(2)
    by (simp add: process_response_def present got joined assms(4)
        citation_lines_block [symmetric])
qed

lemma content_parts_raises: "content_parts cs = Inl e \<Longrightarrow> e = TypeError"
proof (induction cs)
  case Nil
  then show ?case by simp
next
  case (Cons c cs)
  show ?case
  proof (cases "well_formed_choice c")
    case True
    with Cons show ?thesis
      by (auto simp: choice_content_well_formed split: sum.splits)
  next
    case False
    with choice_content_ill_formed [of c] Cons show ?thesis
      by (auto split: sum.splits)
  qed
qed

lemma all_strings_raises: "all_strings vs = Inl e \<Longrightarrow> e = TypeError"
  by (induction vs rule: all_strings.induct) (auto split: sum.splits)

lemma all_strings_append:
  "all_strings (map PStr ss @ vs)
     = (case all_strings vs of Inl e \<Rightarrow> Inl e | Inr ts \<Rightarrow> Inr (ss @ ts))"
  by (induction ss) (simp_all split: sum.splits)

lemma all_strings_not_string:
  assumes "\<forall>s. v \<noteq> PStr s"
  shows "all_strings (v # vs) = Inl TypeError"
  using assms by (cases v) simp_all

lemma content_parts_ill_formed:
  assumes "\<not> list_all well_formed_choice cs"
  shows "and_then (content_parts cs) (py_join sep) = Inl TypeError"
  using assms
proof (induction cs)
  case Nil
  then show ?case by simp
next
  case (Cons c cs)
  show ?case
  proof (cases "content_parts (c # cs)")
    case (Inl e)
    with content_parts_raises [OF Inl] show ?thesis by (simp add: and_then_def)
  next
    case (Inr parts)
    then obtain part rest where part: "choice_content c = Inr part"
      and rest: "content_parts cs = Inr rest" and parts: "parts = part @ rest"
      by (auto split: sum.splits)
    have "all_strings parts = Inl TypeError"
    proof (cases "well_formed_choice c")
      case True
      with Cons.prems have "\<not> list_all well_formed_choice cs" by simp
      from Cons.IH [OF this] rest have "all_strings rest = Inl TypeError"
        by (simp add: and_then_def py_join_def split: sum.splits)
      moreover from choice_content_well_formed [OF True] part
      have "part = map PStr (case choice_text c of Some s \<Rightarrow> [s] | None \<Rightarrow> [])"
        by (cases "choice_text c") simp_all
      ultimately show ?thesis
        by (simp add: parts all_strings_append)
    next
      case False
      with choice_content_ill_formed [of c] part obtain v
        where "part = [v]" and "\<forall>s. v \<noteq> PStr s" by auto
      then show ?thesis
        by (simp add: parts all_strings_not_string)
    qed
    with Inr show ?thesis by (simp add: and_then_def py_join_def)
  qed
qed

lemma process_response_empty:
  assumes "map_of r ''choices'' = Some (PList [])"
  shows "snd (process_response py_str ctx (PDict r)) = Inr no_results_text"
proof -
  from assms have present: "''choices'' \<in> fst ` set r" by (simp add: key_present)
  from assms have got: "attr_or r ''choices'' (PList []) = PList []"
    by (simp add: attr_or_def)
  show ?thesis
    by (simp add: process_response_def present got)
qed

lemma process_response_ill_formed:
  assumes "map_of r ''choices'' = Some (PList choices)" and "choices \<noteq> []"
    and "\<not> list_all well_formed_choice choices"
  shows "snd (process_response py_str ctx (PDict r)) = Inl TypeError"
proof -
  from assms(1) have present: "''choices'' \<in> fst ` set r" by (simp add: key_present)
  from assms(1) have got: "attr_or r ''choices'' (PList []) = PList choices"
    by (simp add: attr_or_def)
  have joined: "and_then (content_parts choices) (py_join '' '') = Inl TypeError"
    by (rule content_parts_ill_formed [OF assms(3)])
  show ?thesis
    using assms(2)
    by (simp add: process_response_def present got joined)
qed

lemma requests_sent_append:
  "requests_sent (xs @ ys) = requests_sent xs @ requests_sent ys"
  by (induction xs rule: requests_sent.induct) simp_all

lemma requests_sent_none:
  assumes "\<And>cc r. PostSent cc r \<notin> set evs"
  shows "requests_sent evs = []"
  using assms
proof (induction evs)
  case Nil
  show ?case by simp
next
  case (Cons e evs)
  then have "requests_sent evs = []" by simp
  moreover have "e \<noteq> PostSent cc r" for cc r
    using Cons.prems [of cc r] by auto
  ultimately show ?case by (cases e) auto
qed

lemma requests_sent_ctx_log: "requests_sent (ctx_log ctx l m) = []"
  by (simp add: ctx_log_def)

lemma call_api_requests:
  "requests_sent (fst (call_api urlparse lib py_str config ctx req))
     = (case snd (create_http_client urlparse lib config) of
          Inl e \<Rightarrow> []
        | Inr cc \<Rightarrow> [req])"
proof -
  obtain printed res where c: "create_http_client urlparse lib config = (printed, res)"
    by (cases "create_http_client urlparse lib config")
  have "PostSent cc r \<notin> set printed" for cc r
    using create_http_client_events [of "PostSent cc r" urlparse lib config] c by auto
  then have np: "requests_sent printed = []"
    by (rule requests_sent_none)
  have nr: "requests_sent evs = []" if "process_response py_str ctx d = (evs, x)" for d evs x
  proof (rule requests_sent_none)
    fix cc r
    show "PostSent cc r \<notin> set evs"
      using process_response_events [of "PostSent cc r" py_str ctx d] that by auto
  qed
  show ?thesis
  proof (cases res)
    case (Inl e)
    with c np show ?thesis
      by (simp add: call_api_def requests_sent_append requests_sent_ctx_log)
  next
    case (Inr client)
    with c np nr show ?thesis
      by (auto simp: call_api_def Let_def requests_sent_append requests_sent_ctx_log
          split: http_reply.splits sum.splits prod.splits)
  qed
qed

lemma search_requests:
  "requests_sent (fst (search urlparse lib py_str config ctx keyword model_arg
                         system_message_arg))
     = (if \<not> truthy (api_key (perplexity config)) then []
        else (case resolve_model config model_arg of
                Inl e \<Rightarrow> []
              | Inr used_model \<Rightarrow>
                  (case snd (create_http_client urlparse lib config) of
                     Inl e \<Rightarrow> []
                   | Inr cc \<Rightarrow>
                       [\<lparr>request_url = api_url (perplexity config),
                         bearer = api_key (perplexity config),
                         request_model = used_model,
                         system_content =
                           str_or system_message_arg (system_message (perplexity config)),
                         user_content = keyword\<rparr>])))"
proof -
  have nh: "requests_sent told = []" if "handle_exception config ctx x = (told, y)"
    for x told y
  proof (rule requests_sent_none)
    fix cc r
    show "PostSent cc r \<notin> set told"
      using handle_exception_events [of "PostSent cc r" config ctx x] that by auto
  qed
  have ca: "requests_sent evs
              = (case snd (create_http_client urlparse lib config) of
                   Inl e \<Rightarrow> []
                 | Inr cc \<Rightarrow> [req])"
    if "call_api urlparse lib py_str config ctx req = (evs, x)" for req evs x
    using call_api_requests [of urlparse lib py_str config ctx req] that by simp
  show ?thesis
    using nh ca
    by (auto simp: search_def Let_def requests_sent_append requests_sent_ctx_log
        split: sum.splits prod.splits)
qed

section \<open>A call without a credential\<close>

text \<open>
  C4. When the resolved \<^verbatim>\<open>api_key\<close> is the empty string, \<^verbatim>\<open>search\<close> raises the
  missing-key \<^verbatim>\<open>ValueError\<close> after at most two messages to the context, whatever the
  transport is: nothing is printed by \<^verbatim>\<open>create_http_client\<close>, no client is created
  and no request is sent.
\<close>

theorem search_without_api_key:
  assumes "api_key (perplexity config) = PStr ''''"
  shows "search urlparse lib py_str config ctx keyword model_arg system_message_arg
           = (ctx_log ctx Info (SearchStarted keyword) @ ctx_log ctx Error ApiKeyMissing,
              Inl MissingApiKeyValueError)
         \<and> (\<forall>e \<in> set (fst (search urlparse lib py_str config ctx keyword model_arg
                               system_message_arg)).
              (\<forall>m. e \<noteq> Print m) \<and> (\<forall>cc. e \<noteq> ClientCreated cc)
              \<and> (\<forall>cc req. e \<noteq> PostSent cc req))"
  using assms by (auto simp: search_def ctx_log_def)

text \<open>The theorem at the default configuration, whose key is empty.\<close>

theorem search_without_api_key_witness:
  "api_key (perplexity default_config) = PStr ''''
   \<and> search plain_urlparse (stub_httpx (Reply 200 ''{}'' (Inr (PDict [])))) plain_str
        default_config True ''what is new'' None None
     = ([Ctx Info (SearchStarted ''what is new''), Ctx Error ApiKeyMissing],
        Inl MissingApiKeyValueError)"
proof -
  have a: "api_key (perplexity default_config) = PStr ''''"
    by (simp add: default_config_def default_perplexity_def)
  from search_without_api_key [OF a, of plain_urlparse
      "stub_httpx (Reply 200 ''{}'' (Inr (PDict [])))" plain_str True "''what is new''" None None] a
  show ?thesis by (simp add: ctx_log_def)
qed

section \<open>An invalid proxy URL\<close>

text \<open>
  C5. When the single effective proxy URL is not empty and fails validation,
  \<^verbatim>\<open>create_http_client\<close> prints the warning and builds its client without a proxy; every
  request \<^verbatim>\<open>search\<close> sends goes through a client without a proxy, and the call returns
  or raises exactly what it would with no proxy configured at all.
\<close>

theorem invalid_proxy_fails_open:
  assumes "get_httpx_proxy (proxy config) = Some u" and "u \<noteq> []"
    and "\<not> validate_proxy_url urlparse u"
  shows "create_http_client urlparse lib config
           = (let cc = \<lparr>client_timeout = timeout (perplexity config), follow_redirects = True,
                        client_proxy = None\<rparr>;
                  warned = [Print (InvalidProxyUrl u), Print DirectInvalidProxy]
              in case async_client lib cc of
                   None \<Rightarrow> (warned @ [ClientCreated cc], Inr cc)
                 | Some e \<Rightarrow> (warned, Inl e))
         \<and> snd (search urlparse lib py_str config ctx keyword model_arg system_message_arg)
           = snd (search urlparse lib py_str (config\<lparr>proxy := default_proxy\<rparr>) ctx keyword
                    model_arg system_message_arg)
         \<and> (\<forall>cc req.
               PostSent cc req \<in> set (fst (search urlparse lib py_str config ctx keyword
                                            model_arg system_message_arg))
               \<longrightarrow> client_proxy cc = None)"
proof (intro conjI allI impI)
  show created: "create_http_client urlparse lib config
           = (let cc = \<lparr>client_timeout = timeout (perplexity config), follow_redirects = True,
                        client_proxy = None\<rparr>;
                  warned = [Print (InvalidProxyUrl u), Print DirectInvalidProxy]
              in case async_client lib cc of
                   None \<Rightarrow> (warned @ [ClientCreated cc], Inr cc)
                 | Some e \<Rightarrow> (warned, Inl e))"
    using assms by (simp add: create_http_client_def Let_def split: option.splits)
  have same: "snd (create_http_client urlparse lib (config\<lparr>proxy := default_proxy\<rparr>))
              = snd (create_http_client urlparse lib config)"
    unfolding created
    by (simp add: create_http_client_def get_httpx_proxy_default Let_def split: option.splits)
  have same_settings: "perplexity (config\<lparr>proxy := default_proxy\<rparr>) = perplexity config"
    by simp
  show "snd (search urlparse lib py_str config ctx keyword model_arg system_message_arg)
           = snd (search urlparse lib py_str (config\<lparr>proxy := default_proxy\<rparr>) ctx keyword
                    model_arg system_message_arg)"
    unfolding search_outcome call_api_outcome same handle_exception_raises resolve_model_def
      same_settings
    by (rule refl)
  fix cc req
  assume "PostSent cc req \<in> set (fst (search urlparse lib py_str config ctx keyword
                                            model_arg system_message_arg))"
  from search_posts [OF this] have "snd (create_http_client urlparse lib config) = Inr cc"
    by simp
  then show "client_proxy cc = None"
    unfolding created by (auto simp: Let_def split: option.splits)
qed

text \<open>The theorem at the proxy \<^verbatim>\<open>not-a-url\<close>: the call succeeds without a proxy.\<close>

theorem invalid_proxy_fails_open_witness:
  "get_httpx_proxy \<lparr>http_proxy = ''not-a-url'', https_proxy = [], all_proxy = [], no_proxy = []\<rparr>
     = Some ''not-a-url''
   \<and> \<not> validate_proxy_url plain_urlparse ''not-a-url''
   \<and> search plain_urlparse
        (stub_httpx (Reply 200 []
           (Inr (PDict [(''choices'', PList [PDict [(''message'',
                           PDict [(''content'', PStr ''A'')])]])]))))
        plain_str
        (example_config\<lparr>proxy := \<lparr>http_proxy = ''not-a-url'', https_proxy = [],
                                     all_proxy = [], no_proxy = []\<rparr>\<rparr>)
        False ''q'' None None
     = ([Print (InvalidProxyUrl ''not-a-url''), Print DirectInvalidProxy,
         ClientCreated \<lparr>client_timeout = PInt 10, follow_redirects = True,
                        client_proxy = None\<rparr>,
         PostSent \<lparr>client_timeout = PInt 10, follow_redirects = True, client_proxy = None\<rparr>
           \<lparr>request_url = PStr ''https://api.perplexity.ai/chat/completions'',
            bearer = PStr ''file-key'', request_model = PStr ''sonar-reasoning'',
            system_content = PStr ''Be precise and concise.'', user_content = ''q''\<rparr>,
         ClientClosed],
        Inr ''A'')"
proof -
  let ?config = "example_config\<lparr>proxy := \<lparr>http_proxy = ''not-a-url'', https_proxy = [],
                                             all_proxy = [], no_proxy = []\<rparr>\<rparr>"
  have a: "get_httpx_proxy (proxy ?config) = Some ''not-a-url''" by code_simp
  have b: "''not-a-url'' \<noteq> []" by simp
  have c: "\<not> validate_proxy_url plain_urlparse ''not-a-url''" by code_simp
  have d: "search plain_urlparse
        (stub_httpx (Reply 200 []
           (Inr (PDict [(''choices'', PList [PDict [(''message'',
                           PDict [(''content'', PStr ''A'')])]])]))))
        plain_str ?config False ''q'' None None
     = ([Print (InvalidProxyUrl ''not-a-url''), Print DirectInvalidProxy,
         ClientCreated \<lparr>client_timeout = PInt 10, follow_redirects = True,
                        client_proxy = None\<rparr>,
         PostSent \<lparr>client_timeout = PInt 10, follow_redirects = True, client_proxy = None\<rparr>
           \<lparr>request_url = PStr ''https://api.perplexity.ai/chat/completions'',
            bearer = PStr ''file-key'', request_model = PStr ''sonar-reasoning'',
            system_content = PStr ''Be precise and concise.'', user_content = ''q''\<rparr>,
         ClientClosed],
        Inr ''A'')"
    by code_simp
  from invalid_proxy_fails_open [OF a b c] a c d show ?thesis by simp
qed

section \<open>The model prefix\<close>

text \<open>
  C7. With a prefix \<^verbatim>\<open>p\<close> and a default model that are strings, the effective model
  \<^verbatim>\<open>m\<close> is the call's argument when given and not empty, else the default; the model
  sent upstream is \<^verbatim>\<open>p + m\<close> when \<^verbatim>\<open>p\<close> is not empty and \<^verbatim>\<open>m\<close> does not start with it,
  and \<^verbatim>\<open>m\<close> otherwise; the prefix step leaves that model unchanged when applied again.
  Every request of the call carries that model, and the call posts exactly one
  request when the key is set and the client can be built (as it can when the
  client's constructor raises nothing), and none otherwise.
\<close>

theorem model_prefix_once:
  assumes "model_prefix (perplexity config) = PStr p" and "model (perplexity config) = PStr m0"
  shows "let m = (case model_arg of None \<Rightarrow> m0 | Some a \<Rightarrow> if a \<noteq> [] then a else m0);
             sent = (if p \<noteq> [] \<and> \<not> startswith m p then p @ m else m)
         in resolve_model config model_arg = Inr (PStr sent)
            \<and> apply_model_prefix (PStr p) (PStr sent) = Inr (PStr sent)
            \<and> (\<forall>cc req.
                  PostSent cc req \<in> set (fst (search urlparse lib py_str config ctx keyword
                                               model_arg system_message_arg))
                  \<longrightarrow> request_model req = PStr sent)
            \<and> map request_model
                 (requests_sent (fst (search urlparse lib py_str config ctx keyword
                                        model_arg system_message_arg)))
               = (if truthy (api_key (perplexity config))
                     \<and> (\<exists>cc. snd (create_http_client urlparse lib config) = Inr cc)
                  then [PStr sent] else [])
            \<and> ((\<forall>cc. async_client lib cc = None)
                 \<longrightarrow> (\<exists>cc. snd (create_http_client urlparse lib config) = Inr cc))"
proof -
  define m where "m = (case model_arg of None \<Rightarrow> m0 | Some a \<Rightarrow> if a \<noteq> [] then a else m0)"
  define sent where "sent = (if p \<noteq> [] \<and> \<not> startswith m p then p @ m else m)"
  have um: "str_or model_arg (model (perplexity config)) = PStr m"
    by (simp add: str_or_def m_def assms(2) split: option.splits)
  have r: "resolve_model config model_arg = Inr (PStr sent)"
    by (simp add: resolve_model_def assms(1) um apply_model_prefix_strings sent_def)
  have twice: "apply_model_prefix (PStr p) (PStr sent) = Inr (PStr sent)"
    by (simp add: apply_model_prefix_strings sent_def startswith_append)
  have carried: "request_model req = PStr sent"
    if "PostSent cc req \<in> set (fst (search urlparse lib py_str config ctx keyword
                                      model_arg system_message_arg))" for cc req
    using search_posts [OF that] r by simp
  have posted: "map request_model
                 (requests_sent (fst (search urlparse lib py_str config ctx keyword
                                        model_arg system_message_arg)))
               = (if truthy (api_key (perplexity config))
                     \<and> (\<exists>cc. snd (create_http_client urlparse lib config) = Inr cc)
                  then [PStr sent] else [])"
    by (cases "snd (create_http_client urlparse lib config)")
      (simp_all add: search_requests r)
  have built: "\<exists>cc. snd (create_http_client urlparse lib config) = Inr cc"
    if "\<forall>cc. async_client lib cc = None"
    using that
    by (simp add: create_http_client_def Let_def split: option.splits prod.splits)
  from r twice carried posted built show ?thesis
    unfolding Let_def m_def [symmetric] sent_def [symmetric] by blast
qed

text \<open>
  The theorem at the prefix \<^verbatim>\<open>org-\<close>, for the models \<^verbatim>\<open>sonar\<close> and \<^verbatim>\<open>org-sonar\<close>: the
  one request of each call carries \<^verbatim>\<open>org-sonar\<close>.
\<close>

theorem model_prefix_once_witness:
  "resolve_model
     (default_config\<lparr>perplexity :=
        default_perplexity\<lparr>api_key := PStr ''k'', model_prefix := PStr ''org-''\<rparr>\<rparr>) None
     = Inr (PStr ''org-sonar'')
   \<and> resolve_model
       (default_config\<lparr>perplexity :=
          default_perplexity\<lparr>api_key := PStr ''k'', model_prefix := PStr ''org-''\<rparr>\<rparr>)
       (Some ''org-sonar'')
     = Inr (PStr ''org-sonar'')
   \<and> apply_model_prefix (PStr ''org-'') (PStr ''org-sonar'') = Inr (PStr ''org-sonar'')
   \<and> map request_model
        (requests_sent (fst (search plain_urlparse
           (stub_httpx (Reply 200 [] (Inr (PDict [(''choices'', PList [])]))))
           plain_str
           (default_config\<lparr>perplexity :=
              default_perplexity\<lparr>api_key := PStr ''k'', model_prefix := PStr ''org-''\<rparr>\<rparr>)
           False ''q'' None None)))
     = [PStr ''org-sonar'']
   \<and> map request_model
        (requests_sent (fst (search plain_urlparse
           (stub_httpx (Reply 200 [] (Inr (PDict [(''choices'', PList [])]))))
           plain_str
           (default_config\<lparr>perplexity :=
              default_perplexity\<lparr>api_key := PStr ''k'', model_prefix := PStr ''org-''\<rparr>\<rparr>)
           False ''q'' (Some ''org-sonar'') None)))
     = [PStr ''org-sonar'']
   \<and> fst (search plain_urlparse
           (stub_httpx (Reply 200 [] (Inr (PDict [(''choices'', PList [])]))))
           plain_str
           (default_config\<lparr>perplexity :=
              default_perplexity\<lparr>api_key := PStr ''k'', model_prefix := PStr ''org-''\<rparr>\<rparr>)
           False ''q'' None None)
     = [Print DirectNoProxy,
        ClientCreated \<lparr>client_timeout = PFloat (Finite 30), follow_redirects = True,
                        client_proxy = None\<rparr>,
        PostSent \<lparr>client_timeout = PFloat (Finite 30), follow_redirects = True, client_proxy = None\<rparr>
          \<lparr>request_url = PStr ''https://api.perplexity.ai/chat/completions'',
           bearer = PStr ''k'', request_model = PStr ''org-sonar'',
           system_content = PStr ''Be precise and concise.'', user_content = ''q''\<rparr>,
        ClientClosed]"
proof -
  let ?config = "default_config\<lparr>perplexity :=
                   default_perplexity\<lparr>api_key := PStr ''k'', model_prefix := PStr ''org-''\<rparr>\<rparr>"
  let ?lib = "stub_httpx (Reply 200 [] (Inr (PDict [(''choices'', PList [])])))"
  have a: "model_prefix (perplexity ?config) = PStr ''org-''"
    and b: "model (perplexity ?config) = PStr ''sonar''"
    by (simp_all add: default_perplexity_def)
  have key: "truthy (api_key (perplexity ?config))"
    by simp
  have lib: "\<forall>cc. async_client ?lib cc = None"
    by (simp add: stub_httpx_def)
  have trace: "fst (search plain_urlparse ?lib plain_str ?config False ''q'' None None)
     = [Print DirectNoProxy,
        ClientCreated \<lparr>client_timeout = PFloat (Finite 30), follow_redirects = True,
                        client_proxy = None\<rparr>,
        PostSent \<lparr>client_timeout = PFloat (Finite 30), follow_redirects = True, client_proxy = None\<rparr>
          \<lparr>request_url = PStr ''https://api.perplexity.ai/chat/completions'',
           bearer = PStr ''k'', request_model = PStr ''org-sonar'',
           system_content = PStr ''Be precise and concise.'', user_content = ''q''\<rparr>,
        ClientClosed]"
    by code_simp
  note first = model_prefix_once [OF a b, of None plain_urlparse ?lib plain_str False
      "''q''" None]
  note second = model_prefix_once [OF a b, of "Some ''org-sonar''" plain_urlparse ?lib
      plain_str False "''q''" None]
  have built: "\<exists>cc. snd (create_http_client plain_urlparse ?lib ?config) = Inr cc"
    using first lib unfolding Let_def by blast
  have c1: "resolve_model ?config None = Inr (PStr ''org-sonar'')"
    using first by (simp add: Let_def)
  have c2: "resolve_model ?config (Some ''org-sonar'') = Inr (PStr ''org-sonar'')"
    using second by (simp add: Let_def)
  have c3: "apply_model_prefix (PStr ''org-'') (PStr ''org-sonar'') = Inr (PStr ''org-sonar'')"
    using first by (simp add: Let_def)
  have c4: "map request_model
        (requests_sent (fst (search plain_urlparse ?lib plain_str ?config False ''q'' None None)))
     = [PStr ''org-sonar'']"
    using first key built by (simp add: Let_def)
  have c5: "map request_model
        (requests_sent (fst (search plain_urlparse ?lib plain_str ?config False ''q''
           (Some ''org-sonar'') None)))
     = [PStr ''org-sonar'']"
    using second key built by (simp add: Let_def)
  from c1 c2 c3 c4 c5 trace
  show ?thesis by (intro conjI)
qed

section \<open>The text of a reply\<close>

text \<open>
  C8 (as amended). For a 200 reply whose \<^verbatim>\<open>choices\<close> is a list:
  \<^item> for the empty list \<^verbatim>\<open>search\<close> returns the fixed no-results text, whatever the
    citations;
  \<^item> for a non-empty list of well-formed choices and a \<^verbatim>\<open>citations\<close> list (or none), it
    returns the message contents in input order, joined by single spaces, the choices
    without a content skipped; when the \<^verbatim>\<open>citations\<close> list is not empty this is followed
    by the header and one line \<^verbatim>\<open>[i] citation\<close> per citation, in input order, counted
    from 1;
  \<^item> for a non-empty list with a choice that is not well-formed it raises \<^verbatim>\<open>TypeError\<close>.
\<close>

theorem search_formats_reply:
  assumes "truthy (api_key (perplexity config))"
    and "resolve_model config model_arg = Inr used_model"
    and "\<forall>cc. async_client lib cc = None"
    and "\<forall>cc req. post lib cc req = Reply 200 text (Inr (PDict r))"
    and "map_of r ''choices'' = Some (PList choices)"
  shows "(choices = [] \<longrightarrow>
            snd (search urlparse lib py_str config ctx keyword model_arg system_message_arg)
              = Inr no_results_text)
         \<and> (choices \<noteq> [] \<and> list_all well_formed_choice choices
              \<and> attr_or r ''citations'' (PList []) = PList citations \<longrightarrow>
            snd (search urlparse lib py_str config ctx keyword model_arg system_message_arg)
              = Inr (str_join '' '' (List.map_filter choice_text choices)
                     @ (if citations = [] then []
                        else citation_block (map (py_format py_str) citations))))
         \<and> (choices \<noteq> [] \<and> \<not> list_all well_formed_choice choices \<longrightarrow>
            snd (search urlparse lib py_str config ctx keyword model_arg system_message_arg)
              = Inl TypeError)"
proof -
  have client: "\<exists>cc. snd (create_http_client urlparse lib config) = Inr cc"
    using assms(3)
    by (simp add: create_http_client_def Let_def split: option.splits prod.splits)
  then obtain cc where cc: "snd (create_http_client urlparse lib config) = Inr cc" by blast
  have outcome:
    "snd (search urlparse lib py_str config ctx keyword model_arg system_message_arg)
       = (case snd (process_response py_str ctx (PDict r)) of
            Inl e \<Rightarrow> Inl e
          | Inr result \<Rightarrow> Inr result)"
    by (simp add: search_outcome assms(1,2) call_api_outcome cc assms(4)
        handle_exception_raises split: sum.splits)
  have empty: "snd (process_response py_str ctx (PDict r)) = Inr no_results_text"
    if "choices = []"
    using process_response_empty assms(5) that by simp
  have formatted: "snd (process_response py_str ctx (PDict r))
              = Inr (str_join '' '' (List.map_filter choice_text choices)
                     @ (if citations = [] then []
                        else citation_block (map (py_format py_str) citations)))"
    if "choices \<noteq> []" and "list_all well_formed_choice choices"
      and "attr_or r ''citations'' (PList []) = PList citations"
    using process_response_well_formed [OF assms(5) that] .
  have raised: "snd (process_response py_str ctx (PDict r)) = Inl TypeError"
    if "choices \<noteq> []" and "\<not> list_all well_formed_choice choices"
    using process_response_ill_formed [OF assms(5) that] .
  show ?thesis
    unfolding outcome using empty formatted raised by simp
qed

text \<open>
  The theorem at four choices, the second without a message and the third a string,
  and two citations; and at the empty list of choices.
\<close>

theorem search_formats_reply_witness:
  "truthy (api_key (perplexity example_config))
   \<and> resolve_model example_config None = Inr (PStr ''sonar-reasoning'')
   \<and> list_all well_formed_choice
        [PDict [(''message'', PDict [(''content'', PStr ''A'')])],
         PDict [(''index'', PInt 1)],
         PStr ''none'',
         PDict [(''message'', PDict [(''content'', PStr ''B'')])]]
   \<and> snd (search plain_urlparse
             (stub_httpx (Reply 200 []
                (Inr (PDict
                   [(''choices'',
                       PList [PDict [(''message'', PDict [(''content'', PStr ''A'')])],
                              PDict [(''index'', PInt 1)],
                              PStr ''none'',
                              PDict [(''message'', PDict [(''content'', PStr ''B'')])]]),
                    (''citations'', PList [PStr ''http://x'', PStr ''http://y''])]))))
             plain_str example_config False ''q'' None None)
     = Inr (''A B'' @ citations_header @ ''[1] http://x'' @ [newline]
            @ ''[2] http://y'' @ [newline])
   \<and> snd (search plain_urlparse
             (stub_httpx (Reply 200 []
                (Inr (PDict [(''choices'', PList []),
                             (''citations'', PList [PStr ''http://x''])]))))
             plain_str example_config False ''q'' None None)
     = Inr no_results_text"
proof -
  let ?choices = "[PDict [(''message'', PDict [(''content'', PStr ''A'')])],
                   PDict [(''index'', PInt 1)],
                   PStr ''none'',
                   PDict [(''message'', PDict [(''content'', PStr ''B'')])]]"
  let ?citations = "[PStr ''http://x'', PStr ''http://y'']"
  let ?r = "[(''choices'', PList ?choices), (''citations'', PList ?citations)]"
  let ?lib = "stub_httpx (Reply 200 [] (Inr (PDict ?r)))"
  let ?none = "[(''choices'', PList []), (''citations'', PList [PStr ''http://x''])]"
  let ?nolib = "stub_httpx (Reply 200 [] (Inr (PDict ?none)))"
  have a: "truthy (api_key (perplexity example_config))" by code_simp
  have b: "resolve_model example_config None = Inr (PStr ''sonar-reasoning'')" by code_simp
  have c: "\<forall>cc. async_client ?lib cc = None" by (simp add: stub_httpx_def)
  have d: "\<forall>cc req. post ?lib cc req = Reply 200 [] (Inr (PDict ?r))"
    by (simp add: stub_httpx_def)
  have e: "map_of ?r ''choices'' = Some (PList ?choices)" by simp
  have f: "?choices \<noteq> []" by simp
  have g: "list_all well_formed_choice ?choices" by code_simp
  have h: "attr_or ?r ''citations'' (PList []) = PList ?citations" by (simp add: attr_or_def)
  have c0: "\<forall>cc. async_client ?nolib cc = None" by (simp add: stub_httpx_def)
  have d0: "\<forall>cc req. post ?nolib cc req = Reply 200 [] (Inr (PDict ?none))"
    by (simp add: stub_httpx_def)
  have e0: "map_of ?none ''choices'' = Some (PList [])" by simp
  have rendered: "str_join '' '' (List.map_filter choice_text ?choices)
                 @ (if ?citations = [] then []
                    else citation_block (map (py_format plain_str) ?citations))
               = ''A B'' @ citations_header @ ''[1] http://x'' @ [newline]
                   @ ''[2] http://y'' @ [newline]"
    by code_simp
  have first: "snd (search plain_urlparse ?lib plain_str example_config False ''q'' None None)
     = Inr (''A B'' @ citations_header @ ''[1] http://x'' @ [newline]
            @ ''[2] http://y'' @ [newline])"
    using search_formats_reply [OF a b c d e, of plain_urlparse plain_str False "''q''" None
        ?citations] f g h
    unfolding rendered by blast
  have second: "snd (search plain_urlparse ?nolib plain_str example_config False ''q'' None None)
     = Inr no_results_text"
    using search_formats_reply [OF a b c0 d0 e0, of plain_urlparse plain_str False "''q''" None
        "[]"]
    by blast
  from a b g first second show ?thesis by (intro conjI)
qed

text \<open>
  The claim as first stated fails for the empty \<^verbatim>\<open>choices\<close> list, where the result is
  the fixed no-results text and the citations are dropped; and a choice whose content
  is \<^verbatim>\<open>null\<close> is not skipped but raises \<^verbatim>\<open>TypeError\<close>.
\<close>

theorem search_formats_reply_counterexample:
  "snd (search plain_urlparse
          (stub_httpx (Reply 200 []
             (Inr (PDict [(''choices'', PList []),
                          (''citations'', PList [PStr ''http://x''])]))))
          plain_str example_config False ''q'' None None)
     = Inr no_results_text
   \<and> no_results_text \<noteq> str_join '' '' [] @ citation_block [''http://x'']
   \<and> snd (search plain_urlparse
          (stub_httpx (Reply 200 []
             (Inr (PDict [(''choices'',
                            PList [PDict [(''message'', PDict [(''content'', PNone)])]])]))))
          plain_str example_config False ''q'' None None)
     = Inl TypeError"
  by code_simp

end
